theory Spec2Isabelle
  imports Complex_Main
begin

section \<open>Documents of the store (schemas.py)\<close>

text \<open>
  Each collection holds documents of one Pydantic model. Only the fields that
  \<open>rate_session\<close> reads or writes are kept; the remaining fields of \<open>User\<close> and
  \<open>Session\<close> (email, name, skills, chat id, links, ...) are neither read nor written
  by it. A Python \<open>float\<close> is a double: here the real number it stands for, with
  the rounding of each operation written out (see \<open>fmul\<close> below). The
  \<open>badges\<close> list is read through \<open>set(...)\<close> and written back as \<open>list(set)\<close>,
  whose order Python leaves open, so the field is a set of labels. A \<open>datetime\<close> is
  a number (a point in time).
\<close>

type_synonym datetime = nat

datatype status = scheduled | completed | cancelled

record User =
  coins :: int
  rating_avg :: real
  rating_count :: int
  badges :: "string set"
  teaching_sessions :: int
  learning_sessions :: int

text \<open>
  \<open>session_doc.get("teacher_id")\<close> is \<open>None\<close> when the key is missing, hence the
  option.
\<close>

record Session =
  teacher_id :: "string option"
  learner_id :: "string option"
  status :: status
  updated_at :: "datetime option"

record Rating =
  session_id :: string
  rater_id :: string
  ratee_id :: string
  score :: int
  feedback :: "string option"
  created_at :: "datetime option"

section \<open>The request and the errors (main.py)\<close>

record RatingRequest =
  session_id :: string
  rater_id :: string
  ratee_id :: string
  score :: int
  feedback :: "string option"

text \<open>
  \<open>HTTPException status_code detail\<close> is what the handler raises itself;
  \<open>ZeroDivisionError\<close> is the uncaught exception of the division in line 334.
\<close>

datatype error = HTTPException nat string | ZeroDivisionError

section \<open>The document store\<close>

text \<open>
  \<open>db\<close> has one collection per model. Documents of \<open>session\<close> and \<open>user\<close> are
  found by \<open>_id\<close>, which is unique, so these collections are maps from object ids;
  \<open>rating\<close> is only appended to. The type \<open>'oid\<close> of object ids and the parser
  \<open>ObjectId\<close> belong to the \<open>bson\<close> library and are parameters of the model:
  \<open>ObjectId s = None\<close> stands for \<open>ObjectId(s)\<close> raising.
\<close>

record 'oid database =
  session :: "'oid \<rightharpoonup> Session"
  user :: "'oid \<rightharpoonup> User"
  rating :: "Rating list"

definition find_one :: "('oid \<rightharpoonup> 'd) \<Rightarrow> 'oid \<Rightarrow> 'd option" where
  "find_one coll i = coll i"

text \<open>\<open>update_one\<close> changes the document with the given id and does nothing when there is none.\<close>

definition update_one :: "('oid \<rightharpoonup> 'd) \<Rightarrow> 'oid \<Rightarrow> ('d \<Rightarrow> 'd) \<Rightarrow> ('oid \<rightharpoonup> 'd)" where
  "update_one coll i f = (case coll i of None \<Rightarrow> coll | Some d \<Rightarrow> coll(i \<mapsto> f d))"

definition insert_one :: "'d list \<Rightarrow> 'd \<Rightarrow> 'd list" where
  "insert_one coll d = coll @ [d]"

section \<open>Utility helpers\<close>

definition oid :: "(string \<Rightarrow> 'oid option) \<Rightarrow> string \<Rightarrow> error + 'oid" where
  "oid ObjectId id_str =
     (case ObjectId id_str of
        None \<Rightarrow> Inl (HTTPException 400 ''Invalid object id'')
      | Some i \<Rightarrow> Inr i)"

text \<open>Python's truth value of \<open>session_doc.get(...)\<close>: \<open>None\<close> and the empty string are false.\<close>

definition truthy :: "string option \<Rightarrow> bool" where
  "truthy v = (case v of None \<Rightarrow> False | Some s \<Rightarrow> s \<noteq> [])"

section \<open>Double arithmetic\<close>

text \<open>
  Python evaluates \<open>avg * (count - 1)\<close>, \<open>... + req.score\<close> and \<open>... / count\<close> in
  IEEE double arithmetic: an \<open>int\<close> operand is first converted to a double, and the
  result of each operation is the exact result rounded to a double. The rounding
  \<open>rnd\<close> is a parameter of the model, so that what is proved holds for the rounding
  of the machine, whatever it does to a given number. Infinities and NaN are not
  modelled; comparisons of doubles are exact.
\<close>

definition float_of_int :: "(real \<Rightarrow> real) \<Rightarrow> int \<Rightarrow> real" where
  "float_of_int rnd i = rnd (real_of_int i)"

definition fmul :: "(real \<Rightarrow> real) \<Rightarrow> real \<Rightarrow> real \<Rightarrow> real" where
  "fmul rnd a b = rnd (a * b)"

definition fadd :: "(real \<Rightarrow> real) \<Rightarrow> real \<Rightarrow> real \<Rightarrow> real" where
  "fadd rnd a b = rnd (a + b)"

definition fdiv :: "(real \<Rightarrow> real) \<Rightarrow> real \<Rightarrow> real \<Rightarrow> real" where
  "fdiv rnd a b = rnd (a / b)"

section \<open>Ratings and coins: \<open>rate_session\<close>\<close>

text \<open>
  The handler is one sequence of store calls. Each of its commented blocks is a
  function from the store to the store; a block that can raise returns the error
  (if any) together with the store as it is at that moment, since nothing is rolled
  back.

  Lines 330 to 335, ``Update ratee rating''. \<open>float(u.get("rating_avg", 0.0))\<close>
  is the stored double itself; the division raises when \<open>count\<close> is 0.
\<close>

definition update_ratee_rating ::
  "(real \<Rightarrow> real) \<Rightarrow> (string \<Rightarrow> 'oid option) \<Rightarrow> RatingRequest \<Rightarrow> 'oid database
     \<Rightarrow> error option \<times> 'oid database" where
  "update_ratee_rating rnd ObjectId req db =
     (case oid ObjectId (RatingRequest.ratee_id req) of
        Inl e \<Rightarrow> (Some e, db)
      | Inr rid \<Rightarrow>
          (case find_one (user db) rid of
             None \<Rightarrow> (None, db)
           | Some u \<Rightarrow>
               let count = rating_count u + 1;
                   avg = rating_avg u
               in if count = 0 then (Some ZeroDivisionError, db)
                  else
                    let new_avg =
                          fdiv rnd
                            (fadd rnd (fmul rnd avg (float_of_int rnd (count - 1)))
                               (float_of_int rnd (RatingRequest.score req)))
                            (float_of_int rnd count)
                    in (None, db\<lparr>user := update_one (user db) rid
                                 (\<lambda>d. d\<lparr>rating_avg := new_avg, rating_count := count\<rparr>)\<rparr>)))"

text \<open>
  Lines 338 to 342, ``Coins logic''. The teacher's increment is already stored when
  \<open>oid(learner_id)\<close> raises.
\<close>

definition coins_logic ::
  "(string \<Rightarrow> 'oid option) \<Rightarrow> Session \<Rightarrow> 'oid database \<Rightarrow> error option \<times> 'oid database" where
  "coins_logic ObjectId session_doc db =
     (if truthy (teacher_id session_doc) \<and> truthy (learner_id session_doc) then
        (case oid ObjectId (the (teacher_id session_doc)) of
           Inl e \<Rightarrow> (Some e, db)
         | Inr tid \<Rightarrow>
             let db1 = db\<lparr>user := update_one (user db) tid
                         (\<lambda>d. d\<lparr>coins := coins d + 10, teaching_sessions := teaching_sessions d + 1\<rparr>)\<rparr>
             in (case oid ObjectId (the (learner_id session_doc)) of
                   Inl e \<Rightarrow> (Some e, db1)
                 | Inr lid \<Rightarrow>
                     (None, db1\<lparr>user := update_one (user db1) lid
                        (\<lambda>d. d\<lparr>coins := coins d - 10, learning_sessions := learning_sessions d + 1\<rparr>)\<rparr>)))
      else (None, db))"

text \<open>Line 345, ``Mark session completed''; the id has been parsed in line 315.\<close>

definition mark_session_completed :: "'oid \<Rightarrow> datetime \<Rightarrow> 'oid database \<Rightarrow> 'oid database" where
  "mark_session_completed sid now db =
     db\<lparr>session := update_one (session db) sid (\<lambda>d. d\<lparr>status := completed, updated_at := Some now\<rparr>)\<rparr>"

text \<open>Lines 348 to 357, ``Badges''.\<close>

definition badges_logic ::
  "(string \<Rightarrow> 'oid option) \<Rightarrow> Session \<Rightarrow> 'oid database \<Rightarrow> error option \<times> 'oid database" where
  "badges_logic ObjectId session_doc db =
     (if truthy (teacher_id session_doc) then
        (case oid ObjectId (the (teacher_id session_doc)) of
           Inl e \<Rightarrow> (Some e, db)
         | Inr tid \<Rightarrow>
             (case find_one (user db) tid of
                None \<Rightarrow> (None, db)
              | Some t \<Rightarrow>
                  let b0 = badges t;
                      b1 = (if teaching_sessions t \<ge> 10 then insert ''Top Mentor'' b0 else b0);
                      b2 = (if learning_sessions t + teaching_sessions t \<ge> 5
                            then insert ''Skill Streak'' b1 else b1);
                      b3 = (if rating_avg t > 4.5 then insert ''Helpful Teacher'' b2 else b2)
                  in (None, db\<lparr>user := update_one (user db) tid (\<lambda>d. d\<lparr>badges := b3\<rparr>)\<rparr>)))
      else (None, db))"

text \<open>
  The handler. \<open>now1\<close> and \<open>now2\<close> are what the two calls of \<open>now_utc()\<close> return
  (lines 325 and 345); \<open>db\<close> is \<open>None\<close> when no database is configured. The result
  is the error raised or the response \<open>{"ok": True}\<close>, and the store afterwards.
\<close>

definition rate_session ::
  "(real \<Rightarrow> real) \<Rightarrow> (string \<Rightarrow> 'oid option) \<Rightarrow> datetime \<Rightarrow> datetime \<Rightarrow> 'oid database option \<Rightarrow> RatingRequest
     \<Rightarrow> (error + (string \<times> bool) list) \<times> 'oid database option" where
  "rate_session rnd ObjectId now1 now2 db req =
     (case db of
        None \<Rightarrow> (Inl (HTTPException 500 ''Database not configured''), None)
      | Some db0 \<Rightarrow>
          if \<not> (1 \<le> RatingRequest.score req \<and> RatingRequest.score req \<le> 5)
          then (Inl (HTTPException 400 ''Score must be 1-5''), Some db0)
          else
            (case oid ObjectId (RatingRequest.session_id req) of
               Inl e \<Rightarrow> (Inl e, Some db0)
             | Inr sid \<Rightarrow>
                 (case find_one (session db0) sid of
                    None \<Rightarrow> (Inl (HTTPException 404 ''Session not found''), Some db0)
                  | Some session_doc \<Rightarrow>
                      let rating_doc = \<lparr>Rating.session_id = RatingRequest.session_id req,
                                        Rating.rater_id = RatingRequest.rater_id req,
                                        Rating.ratee_id = RatingRequest.ratee_id req,
                                        Rating.score = RatingRequest.score req,
                                        Rating.feedback = RatingRequest.feedback req,
                                        Rating.created_at = Some now1\<rparr>;
                          db1 = db0\<lparr>rating := insert_one (rating db0) rating_doc\<rparr>
                      in (case update_ratee_rating rnd ObjectId req db1 of
                            (Some e, db2) \<Rightarrow> (Inl e, Some db2)
                          | (None, db2) \<Rightarrow>
                              (case coins_logic ObjectId session_doc db2 of
                                 (Some e, db3) \<Rightarrow> (Inl e, Some db3)
                               | (None, db3) \<Rightarrow>
                                   (case badges_logic ObjectId session_doc
                                           (mark_session_completed sid now2 db3) of
                                      (Some e, db4) \<Rightarrow> (Inl e, Some db4)
                                    | (None, db4) \<Rightarrow> (Inr [(''ok'', True)], Some db4)))))))"

text \<open>
  A sequence of calls of the handler, one after the other on the same store, each
  with the two times it reads; a call that raises keeps what it has stored.
\<close>

fun rate_sessions ::
  "(real \<Rightarrow> real) \<Rightarrow> (string \<Rightarrow> 'oid option) \<Rightarrow> 'oid database option \<Rightarrow> (datetime \<times> datetime \<times> RatingRequest) list
     \<Rightarrow> 'oid database option" where
  "rate_sessions rnd ObjectId db [] = db"
| "rate_sessions rnd ObjectId db ((now1, now2, req) # calls) =
     rate_sessions rnd ObjectId (snd (rate_session rnd ObjectId now1 now2 db req)) calls"

section \<open>An example store\<close>

text \<open>
  The examples below run the handler on a small store. \<open>hex_ObjectId\<close> is a sample
  parser: it accepts the strings of 24 hexadecimal digits and reads an upper-case
  digit as the lower-case one, so that an object id is a string of 24 lower-case
  digits. The numbers of the examples are chosen so that every operation on doubles
  is exact (each intermediate result is a multiple of \<open>1 / 4\<close> below 32), and their
  rounding \<open>no_rounding\<close> leaves a number as it is. User \<open>...a1\<close> teaches user
  \<open>...a2\<close> in session \<open>...f1\<close>; user \<open>...a3\<close> is both teacher and learner of
  session \<open>...f2\<close>; user \<open>...a4\<close> takes part in no session.
\<close>

definition lower_hex :: "char \<Rightarrow> char" where
  "lower_hex c =
     (if c = CHR ''A'' then CHR ''a'' else if c = CHR ''B'' then CHR ''b''
      else if c = CHR ''C'' then CHR ''c'' else if c = CHR ''D'' then CHR ''d''
      else if c = CHR ''E'' then CHR ''e'' else if c = CHR ''F'' then CHR ''f'' else c)"

definition hex_ObjectId :: "string \<Rightarrow> string option" where
  "hex_ObjectId s =
     (if length s = 24 \<and> list_all (\<lambda>c. c \<in> set ''0123456789abcdefABCDEF'') s
      then Some (map lower_hex s) else None)"

definition no_rounding :: "real \<Rightarrow> real" where
  "no_rounding x = x"

definition example_db :: "string database" where
  "example_db =
     \<lparr>session =
        [''0000000000000000000000f1'' \<mapsto>
           \<lparr>teacher_id = Some ''0000000000000000000000a1'',
            learner_id = Some ''0000000000000000000000a2'',
            status = scheduled, updated_at = None\<rparr>,
         ''0000000000000000000000f2'' \<mapsto>
           \<lparr>teacher_id = Some ''0000000000000000000000a3'',
            learner_id = Some ''0000000000000000000000a3'',
            status = scheduled, updated_at = None\<rparr>],
      user =
        [''0000000000000000000000a1'' \<mapsto>
           \<lparr>coins = 20, rating_avg = 4.5, rating_count = 1, badges = {},
            teaching_sessions = 9, learning_sessions = 0\<rparr>,
         ''0000000000000000000000a2'' \<mapsto>
           \<lparr>coins = 5, rating_avg = 0, rating_count = 0, badges = {''Early Bird''},
            teaching_sessions = 0, learning_sessions = 2\<rparr>,
         ''0000000000000000000000a3'' \<mapsto>
           \<lparr>coins = 20, rating_avg = 0, rating_count = 0, badges = {},
            teaching_sessions = 0, learning_sessions = 0\<rparr>,
         ''0000000000000000000000a4'' \<mapsto>
           \<lparr>coins = 20, rating_avg = 3, rating_count = 1, badges = {},
            teaching_sessions = 0, learning_sessions = 0\<rparr>],
      rating = []\<rparr>"

text \<open>The learner \<open>...a2\<close> rates the teacher \<open>...a1\<close> of session \<open>...f1\<close> with 5.\<close>

definition example_req :: RatingRequest where
  "example_req =
     \<lparr>RatingRequest.session_id = ''0000000000000000000000f1'',
      RatingRequest.rater_id = ''0000000000000000000000a2'',
      RatingRequest.ratee_id = ''0000000000000000000000a1'',
      RatingRequest.score = 5,
      RatingRequest.feedback = None\<rparr>"

lemmas run_simps = rate_session_def update_ratee_rating_def coins_logic_def badges_logic_def
  mark_session_completed_def oid_def find_one_def update_one_def insert_one_def truthy_def
  hex_ObjectId_def lower_hex_def example_db_def example_req_def Let_def
  float_of_int_def fmul_def fadd_def fdiv_def no_rounding_def

section \<open>Facts about the blocks of the handler\<close>

subsection \<open>update_ratee_rating\<close>

lemma urr_session: "session (snd (update_ratee_rating rnd ObjectId req db)) = session db"
  by (simp add: update_ratee_rating_def Let_def split: sum.splits option.splits)

lemma urr_rating: "rating (snd (update_ratee_rating rnd ObjectId req db)) = rating db"
  by (simp add: update_ratee_rating_def Let_def split: sum.splits option.splits)

lemma urr_user_None: "user db x = None \<Longrightarrow> user (snd (update_ratee_rating rnd ObjectId req db)) x = None"
  by (auto simp: update_ratee_rating_def Let_def update_one_def find_one_def split: sum.splits option.splits)

lemma urr_user_Some:
  "user db x = Some u \<Longrightarrow>
   \<exists>u'. user (snd (update_ratee_rating rnd ObjectId req db)) x = Some u' \<and> coins u' = coins u \<and>
        badges u' = badges u \<and> teaching_sessions u' = teaching_sessions u \<and>
        learning_sessions u' = learning_sessions u"
  by (auto simp: update_ratee_rating_def Let_def update_one_def find_one_def split: sum.splits option.splits)

lemma urr_other:
  "ObjectId (RatingRequest.ratee_id req) \<noteq> Some x \<Longrightarrow>
   user (snd (update_ratee_rating rnd ObjectId req db)) x = user db x"
  by (auto simp: update_ratee_rating_def Let_def update_one_def find_one_def oid_def split: sum.splits option.splits)


lemma urr_absent:
  "ObjectId (RatingRequest.ratee_id req) = Some rid \<Longrightarrow> user db rid = None \<Longrightarrow>
   update_ratee_rating rnd ObjectId req db = (None, db)"
  by (simp add: update_ratee_rating_def find_one_def oid_def)

lemma urr_malformed:
  "ObjectId (RatingRequest.ratee_id req) = None \<Longrightarrow>
   update_ratee_rating rnd ObjectId req db = (Some (HTTPException 400 ''Invalid object id''), db)"
  by (simp add: update_ratee_rating_def oid_def)

lemma urr_zero:
  "ObjectId (RatingRequest.ratee_id req) = Some rid \<Longrightarrow> user db rid = Some u \<Longrightarrow>
   rating_count u + 1 = 0 \<Longrightarrow>
   update_ratee_rating rnd ObjectId req db = (Some ZeroDivisionError, db)"
  by (simp add: update_ratee_rating_def Let_def update_one_def find_one_def oid_def)

subsection \<open>coins_logic\<close>

lemma cl_session: "session (snd (coins_logic ObjectId s db)) = session db"
  by (simp add: coins_logic_def Let_def split: sum.splits option.splits)

lemma cl_rating: "rating (snd (coins_logic ObjectId s db)) = rating db"
  by (simp add: coins_logic_def Let_def split: sum.splits option.splits)

lemma cl_user_None: "user db x = None \<Longrightarrow> user (snd (coins_logic ObjectId s db)) x = None"
  by (auto simp: coins_logic_def Let_def update_one_def split: sum.splits option.splits)

lemma cl_user_Some:
  "user db x = Some u \<Longrightarrow>
   \<exists>u'. user (snd (coins_logic ObjectId s db)) x = Some u' \<and> rating_avg u' = rating_avg u \<and>
        rating_count u' = rating_count u \<and> badges u' = badges u"
  by (auto simp: coins_logic_def Let_def update_one_def split: sum.splits option.splits)

lemma cl_unpopulated:
  "\<not> (truthy (teacher_id s) \<and> truthy (learner_id s)) \<Longrightarrow> coins_logic ObjectId s db = (None, db)"
  by (auto simp: coins_logic_def)

lemma cl_success_ids:
  "fst (coins_logic ObjectId s db) = None \<Longrightarrow> truthy (teacher_id s) \<Longrightarrow> truthy (learner_id s) \<Longrightarrow>
   \<exists>tid lid. ObjectId (the (teacher_id s)) = Some tid \<and> ObjectId (the (learner_id s)) = Some lid"
  by (auto simp: coins_logic_def Let_def oid_def split: sum.splits option.splits)

lemma cl_populated_user:
  "truthy (teacher_id s) \<Longrightarrow> truthy (learner_id s) \<Longrightarrow>
   ObjectId (the (teacher_id s)) = Some tid \<Longrightarrow> ObjectId (the (learner_id s)) = Some lid \<Longrightarrow>
   user db x = Some u \<Longrightarrow>
   fst (coins_logic ObjectId s db) = None \<and>
   (\<exists>u'. user (snd (coins_logic ObjectId s db)) x = Some u' \<and>
        coins u' = coins u + (if x = tid then 10 else 0) - (if x = lid then 10 else 0) \<and>
        teaching_sessions u' = teaching_sessions u + (if x = tid then 1 else 0) \<and>
        learning_sessions u' = learning_sessions u + (if x = lid then 1 else 0))"
  by (auto simp: coins_logic_def Let_def update_one_def oid_def split: sum.splits option.splits)

subsection \<open>mark_session_completed\<close>

lemma msc_user: "user (mark_session_completed sid now db) = user db"
  by (simp add: mark_session_completed_def)

lemma msc_rating: "rating (mark_session_completed sid now db) = rating db"
  by (simp add: mark_session_completed_def)

lemma msc_session:
  "session db sid = Some s \<Longrightarrow>
   session (mark_session_completed sid now db) = (session db)(sid \<mapsto> s\<lparr>status := completed, updated_at := Some now\<rparr>)"
  by (simp add: mark_session_completed_def update_one_def)

subsection \<open>badges_logic\<close>

lemma bl_session: "session (snd (badges_logic ObjectId s db)) = session db"
  by (simp add: badges_logic_def Let_def split: sum.splits option.splits)

lemma bl_rating: "rating (snd (badges_logic ObjectId s db)) = rating db"
  by (simp add: badges_logic_def Let_def split: sum.splits option.splits)

lemma bl_user_None: "user db x = None \<Longrightarrow> user (snd (badges_logic ObjectId s db)) x = None"
  by (auto simp: badges_logic_def Let_def update_one_def find_one_def split: sum.splits option.splits)

lemma bl_user_Some:
  "user db x = Some u \<Longrightarrow>
   \<exists>u'. user (snd (badges_logic ObjectId s db)) x = Some u' \<and> rating_avg u' = rating_avg u \<and>
        rating_count u' = rating_count u \<and> coins u' = coins u \<and>
        teaching_sessions u' = teaching_sessions u \<and> learning_sessions u' = learning_sessions u \<and>
        badges u \<subseteq> badges u'"
  by (auto simp: badges_logic_def Let_def update_one_def find_one_def split: sum.splits option.splits)

lemma bl_success_user:
  "fst (badges_logic ObjectId s db) = None \<Longrightarrow> user db x = Some u \<Longrightarrow>
   \<exists>u'. user (snd (badges_logic ObjectId s db)) x = Some u' \<and>
     badges u' =
       (if truthy (teacher_id s) \<and> ObjectId (the (teacher_id s)) = Some x
        then badges u \<union> (if teaching_sessions u \<ge> 10 then {''Top Mentor''} else {})
                      \<union> (if learning_sessions u + teaching_sessions u \<ge> 5 then {''Skill Streak''} else {})
                      \<union> (if rating_avg u > 4.5 then {''Helpful Teacher''} else {})
        else badges u)"
  by (auto simp: badges_logic_def Let_def update_one_def find_one_def oid_def split: sum.splits option.splits)


lemma urr_success_user:
  "fst (update_ratee_rating rnd ObjectId req db) = None \<Longrightarrow> user db x = Some u \<Longrightarrow>
   \<exists>u'. user (snd (update_ratee_rating rnd ObjectId req db)) x = Some u' \<and>
     rating_count u' = rating_count u + (if ObjectId (RatingRequest.ratee_id req) = Some x then 1 else 0) \<and>
     rating_avg u' =
       (if ObjectId (RatingRequest.ratee_id req) = Some x
        then fdiv rnd (fadd rnd (fmul rnd (rating_avg u) (float_of_int rnd (rating_count u)))
                  (float_of_int rnd (RatingRequest.score req)))
                (float_of_int rnd (rating_count u + 1))
        else rating_avg u)"
  by (auto simp: update_ratee_rating_def Let_def update_one_def find_one_def oid_def
           split: sum.splits option.splits if_splits)

lemma urr_success_id:
  "fst (update_ratee_rating rnd ObjectId req db) = None \<Longrightarrow> ObjectId (RatingRequest.ratee_id req) \<noteq> None"
  by (auto simp: update_ratee_rating_def oid_def split: sum.splits option.splits)

lemma urr_success_count:
  "fst (update_ratee_rating rnd ObjectId req db) = None \<Longrightarrow>
   ObjectId (RatingRequest.ratee_id req) = Some rid \<Longrightarrow> user db rid = Some u \<Longrightarrow>
   rating_count u + 1 \<noteq> 0"
  by (auto simp: update_ratee_rating_def Let_def find_one_def oid_def split: sum.splits option.splits if_splits)

lemma cl_success_user:
  "fst (coins_logic ObjectId s db) = None \<Longrightarrow> user db x = Some u \<Longrightarrow>
   \<exists>u'. user (snd (coins_logic ObjectId s db)) x = Some u' \<and>
     coins u' = coins u
        + (if truthy (teacher_id s) \<and> truthy (learner_id s) \<and> ObjectId (the (teacher_id s)) = Some x
           then 10 else 0)
        - (if truthy (teacher_id s) \<and> truthy (learner_id s) \<and> ObjectId (the (learner_id s)) = Some x
           then 10 else 0) \<and>
     teaching_sessions u' = teaching_sessions u
        + (if truthy (teacher_id s) \<and> truthy (learner_id s) \<and> ObjectId (the (teacher_id s)) = Some x
           then 1 else 0) \<and>
     learning_sessions u' = learning_sessions u
        + (if truthy (teacher_id s) \<and> truthy (learner_id s) \<and> ObjectId (the (learner_id s)) = Some x
           then 1 else 0)"
  by (auto simp: coins_logic_def Let_def update_one_def oid_def split: sum.splits option.splits if_splits)

lemma bl_success_id:
  "fst (badges_logic ObjectId s db) = None \<Longrightarrow> truthy (teacher_id s) \<Longrightarrow>
   ObjectId (the (teacher_id s)) \<noteq> None"
  by (auto simp: badges_logic_def oid_def split: sum.splits option.splits)

lemma bl_succeeds:
  "(truthy (teacher_id s) \<Longrightarrow> ObjectId (the (teacher_id s)) \<noteq> None) \<Longrightarrow>
   fst (badges_logic ObjectId s db) = None"
  by (auto simp: badges_logic_def Let_def oid_def find_one_def split: sum.splits option.splits)

lemma cl_succeeds:
  "(truthy (teacher_id s) \<Longrightarrow> truthy (learner_id s) \<Longrightarrow>
      ObjectId (the (teacher_id s)) \<noteq> None \<and> ObjectId (the (learner_id s)) \<noteq> None) \<Longrightarrow>
   fst (coins_logic ObjectId s db) = None"
  by (auto simp: coins_logic_def Let_def oid_def split: sum.splits option.splits)

lemma urr_succeeds:
  "ObjectId (RatingRequest.ratee_id req) = Some rid \<Longrightarrow>
   (\<And>u. user db rid = Some u \<Longrightarrow> rating_count u + 1 \<noteq> 0) \<Longrightarrow>
   fst (update_ratee_rating rnd ObjectId req db) = None"
  by (auto simp: update_ratee_rating_def Let_def oid_def find_one_def split: sum.splits option.splits)

subsection \<open>rate_session as the chain of its blocks\<close>

lemma rs_chain:
  assumes "1 \<le> RatingRequest.score req" and "RatingRequest.score req \<le> 5"
    and "ObjectId (RatingRequest.session_id req) = Some sid"
    and "session db sid = Some sess"
    and "db1 = db\<lparr>rating := rating db @
            [\<lparr>Rating.session_id = RatingRequest.session_id req,
              Rating.rater_id = RatingRequest.rater_id req,
              Rating.ratee_id = RatingRequest.ratee_id req,
              Rating.score = RatingRequest.score req,
              Rating.feedback = RatingRequest.feedback req,
              Rating.created_at = Some now1\<rparr>]\<rparr>"
    and "db2 = snd (update_ratee_rating rnd ObjectId req db1)"
    and "db3 = snd (coins_logic ObjectId sess db2)"
    and "db5 = snd (badges_logic ObjectId sess (mark_session_completed sid now2 db3))"
  shows "rate_session rnd ObjectId now1 now2 (Some db) req =
     (case fst (update_ratee_rating rnd ObjectId req db1) of
        Some e \<Rightarrow> (Inl e, Some db2)
      | None \<Rightarrow>
         (case fst (coins_logic ObjectId sess db2) of
            Some e \<Rightarrow> (Inl e, Some db3)
          | None \<Rightarrow>
             (case fst (badges_logic ObjectId sess (mark_session_completed sid now2 db3)) of
                Some e \<Rightarrow> (Inl e, Some db5)
              | None \<Rightarrow> (Inr [(''ok'', True)], Some db5))))"
  using assms(1-4) unfolding assms(5-8)
  by (simp add: rate_session_def oid_def find_one_def insert_one_def Let_def case_prod_beta
           split: option.splits)

lemma rs_pre:
  assumes "rate_session rnd ObjectId now1 now2 (Some db) req = (Inr r, s')"
  shows "1 \<le> RatingRequest.score req \<and> RatingRequest.score req \<le> 5 \<and>
         (\<exists>sid sess. ObjectId (RatingRequest.session_id req) = Some sid \<and> session db sid = Some sess)"
  using assms
  by (auto simp: rate_session_def oid_def find_one_def split: if_splits option.splits)

subsection \<open>What a call leaves in the store\<close>


lemma rs_rejected_store:
  assumes "\<not> (1 \<le> RatingRequest.score req \<and> RatingRequest.score req \<le> 5) \<or>
           ObjectId (RatingRequest.session_id req) = None \<or>
           (\<exists>sid. ObjectId (RatingRequest.session_id req) = Some sid \<and> session db sid = None)"
  shows "snd (rate_session rnd ObjectId now1 now2 (Some db) req) = Some db"
  using assms by (auto simp: rate_session_def oid_def find_one_def split: option.splits)

text \<open>Whatever the outcome, the store afterwards is the store after one of the blocks.\<close>

lemma rs_final_store:
  assumes "1 \<le> RatingRequest.score req" and "RatingRequest.score req \<le> 5"
    and "ObjectId (RatingRequest.session_id req) = Some sid"
    and "session db sid = Some sess"
    and "db1 = db\<lparr>rating := rating db @
            [\<lparr>Rating.session_id = RatingRequest.session_id req,
              Rating.rater_id = RatingRequest.rater_id req,
              Rating.ratee_id = RatingRequest.ratee_id req,
              Rating.score = RatingRequest.score req,
              Rating.feedback = RatingRequest.feedback req,
              Rating.created_at = Some now1\<rparr>]\<rparr>"
    and "db2 = snd (update_ratee_rating rnd ObjectId req db1)"
    and "db3 = snd (coins_logic ObjectId sess db2)"
    and "db5 = snd (badges_logic ObjectId sess (mark_session_completed sid now2 db3))"
  shows "snd (rate_session rnd ObjectId now1 now2 (Some db) req) = Some db2 \<and>
           fst (update_ratee_rating rnd ObjectId req db1) \<noteq> None \<or>
         snd (rate_session rnd ObjectId now1 now2 (Some db) req) = Some db3 \<and>
           fst (update_ratee_rating rnd ObjectId req db1) = None \<or>
         snd (rate_session rnd ObjectId now1 now2 (Some db) req) = Some db5 \<and>
           fst (update_ratee_rating rnd ObjectId req db1) = None"
  unfolding rs_chain [OF assms] by (simp split: option.splits)

lemma rs_success_store:
  assumes "1 \<le> RatingRequest.score req" and "RatingRequest.score req \<le> 5"
    and "ObjectId (RatingRequest.session_id req) = Some sid"
    and "session db sid = Some sess"
    and "db1 = db\<lparr>rating := rating db @
            [\<lparr>Rating.session_id = RatingRequest.session_id req,
              Rating.rater_id = RatingRequest.rater_id req,
              Rating.ratee_id = RatingRequest.ratee_id req,
              Rating.score = RatingRequest.score req,
              Rating.feedback = RatingRequest.feedback req,
              Rating.created_at = Some now1\<rparr>]\<rparr>"
    and "db2 = snd (update_ratee_rating rnd ObjectId req db1)"
    and "db3 = snd (coins_logic ObjectId sess db2)"
    and "db5 = snd (badges_logic ObjectId sess (mark_session_completed sid now2 db3))"
  shows "rate_session rnd ObjectId now1 now2 (Some db) req = (Inr r, s') \<longleftrightarrow>
         r = [(''ok'', True)] \<and> s' = Some db5 \<and>
         fst (update_ratee_rating rnd ObjectId req db1) = None \<and>
         fst (coins_logic ObjectId sess db2) = None \<and>
         fst (badges_logic ObjectId sess (mark_session_completed sid now2 db3)) = None"
  unfolding rs_chain [OF assms] by (auto split: option.splits)



lemma rs_success_blocks:
  assumes run: "rate_session rnd ObjectId now1 now2 (Some db) req = (Inr r, s')"
    and sid: "ObjectId (RatingRequest.session_id req) = Some sid"
    and sess: "session db sid = Some sess"
    and db1: "db1 = db\<lparr>rating := rating db @
            [\<lparr>Rating.session_id = RatingRequest.session_id req,
              Rating.rater_id = RatingRequest.rater_id req,
              Rating.ratee_id = RatingRequest.ratee_id req,
              Rating.score = RatingRequest.score req,
              Rating.feedback = RatingRequest.feedback req,
              Rating.created_at = Some now1\<rparr>]\<rparr>"
    and db2: "db2 = snd (update_ratee_rating rnd ObjectId req db1)"
    and db3: "db3 = snd (coins_logic ObjectId sess db2)"
    and db5: "db5 = snd (badges_logic ObjectId sess (mark_session_completed sid now2 db3))"
  shows "r = [(''ok'', True)] \<and> s' = Some db5 \<and>
         fst (update_ratee_rating rnd ObjectId req db1) = None \<and>
         fst (coins_logic ObjectId sess db2) = None \<and>
         fst (badges_logic ObjectId sess (mark_session_completed sid now2 db3)) = None"
proof -
  have score: "1 \<le> RatingRequest.score req" "RatingRequest.score req \<le> 5"
    using rs_pre [OF run] by simp_all
  show ?thesis
    using rs_success_store [OF score sid sess db1 db2 db3 db5, of r s'] run by simp
qed

lemma rs_success_session:
  assumes run: "rate_session rnd ObjectId now1 now2 (Some db) req = (Inr r, Some db')"
    and sid: "ObjectId (RatingRequest.session_id req) = Some sid"
    and sess: "session db sid = Some sess"
  shows "session db' = (session db)(sid \<mapsto> sess\<lparr>status := completed, updated_at := Some now2\<rparr>)"
    and "rating db' = rating db @
            [\<lparr>Rating.session_id = RatingRequest.session_id req,
              Rating.rater_id = RatingRequest.rater_id req,
              Rating.ratee_id = RatingRequest.ratee_id req,
              Rating.score = RatingRequest.score req,
              Rating.feedback = RatingRequest.feedback req,
              Rating.created_at = Some now1\<rparr>]"
proof -
  define db1 where "db1 = db\<lparr>rating := rating db @
            [\<lparr>Rating.session_id = RatingRequest.session_id req,
              Rating.rater_id = RatingRequest.rater_id req,
              Rating.ratee_id = RatingRequest.ratee_id req,
              Rating.score = RatingRequest.score req,
              Rating.feedback = RatingRequest.feedback req,
              Rating.created_at = Some now1\<rparr>]\<rparr>"
  define db2 where "db2 = snd (update_ratee_rating rnd ObjectId req db1)"
  define db3 where "db3 = snd (coins_logic ObjectId sess db2)"
  define db5 where "db5 = snd (badges_logic ObjectId sess (mark_session_completed sid now2 db3))"
  have fin: "db' = db5"
    using rs_success_blocks [OF run sid sess db1_def db2_def db3_def db5_def] by simp
  have s3: "session db3 = session db"
    by (simp add: db3_def db2_def db1_def cl_session urr_session)
  then have s3': "session db3 sid = Some sess"
    using sess by simp
  show "session db' = (session db)(sid \<mapsto> sess\<lparr>status := completed, updated_at := Some now2\<rparr>)"
    unfolding fin db5_def by (simp add: bl_session msc_session [OF s3'] s3)
  show "rating db' = rating db @
            [\<lparr>Rating.session_id = RatingRequest.session_id req,
              Rating.rater_id = RatingRequest.rater_id req,
              Rating.ratee_id = RatingRequest.ratee_id req,
              Rating.score = RatingRequest.score req,
              Rating.feedback = RatingRequest.feedback req,
              Rating.created_at = Some now1\<rparr>]"
    unfolding fin db5_def
    by (simp add: bl_rating msc_rating db3_def cl_rating db2_def urr_rating db1_def)
qed

lemma rs_success_ids:
  assumes run: "rate_session rnd ObjectId now1 now2 (Some db) req = (Inr r, Some db')"
    and sid: "ObjectId (RatingRequest.session_id req) = Some sid"
    and sess: "session db sid = Some sess"
  shows "ObjectId (RatingRequest.ratee_id req) \<noteq> None"
    and "truthy (teacher_id sess) \<Longrightarrow> ObjectId (the (teacher_id sess)) \<noteq> None"
    and "truthy (teacher_id sess) \<Longrightarrow> truthy (learner_id sess) \<Longrightarrow>
           ObjectId (the (learner_id sess)) \<noteq> None"
proof -
  define db1 where "db1 = db\<lparr>rating := rating db @
            [\<lparr>Rating.session_id = RatingRequest.session_id req,
              Rating.rater_id = RatingRequest.rater_id req,
              Rating.ratee_id = RatingRequest.ratee_id req,
              Rating.score = RatingRequest.score req,
              Rating.feedback = RatingRequest.feedback req,
              Rating.created_at = Some now1\<rparr>]\<rparr>"
  define db2 where "db2 = snd (update_ratee_rating rnd ObjectId req db1)"
  define db3 where "db3 = snd (coins_logic ObjectId sess db2)"
  define db5 where "db5 = snd (badges_logic ObjectId sess (mark_session_completed sid now2 db3))"
  note blocks = rs_success_blocks [OF run sid sess db1_def db2_def db3_def db5_def]
  show "ObjectId (RatingRequest.ratee_id req) \<noteq> None"
    using blocks urr_success_id [of rnd ObjectId req db1] by simp
  show "truthy (teacher_id sess) \<Longrightarrow> ObjectId (the (teacher_id sess)) \<noteq> None"
    using blocks bl_success_id [of ObjectId sess "mark_session_completed sid now2 db3"] by simp
  show "truthy (teacher_id sess) \<Longrightarrow> truthy (learner_id sess) \<Longrightarrow>
           ObjectId (the (learner_id sess)) \<noteq> None"
    using blocks cl_success_ids [of ObjectId sess db2] by auto
qed

lemma rs_success_absent:
  assumes run: "rate_session rnd ObjectId now1 now2 (Some db) req = (Inr r, Some db')"
    and sid: "ObjectId (RatingRequest.session_id req) = Some sid"
    and sess: "session db sid = Some sess"
    and x: "user db x = None"
  shows "user db' x = None"
proof -
  define db1 where "db1 = db\<lparr>rating := rating db @
            [\<lparr>Rating.session_id = RatingRequest.session_id req,
              Rating.rater_id = RatingRequest.rater_id req,
              Rating.ratee_id = RatingRequest.ratee_id req,
              Rating.score = RatingRequest.score req,
              Rating.feedback = RatingRequest.feedback req,
              Rating.created_at = Some now1\<rparr>]\<rparr>"
  define db2 where "db2 = snd (update_ratee_rating rnd ObjectId req db1)"
  define db3 where "db3 = snd (coins_logic ObjectId sess db2)"
  define db4 where "db4 = mark_session_completed sid now2 db3"
  define db5 where "db5 = snd (badges_logic ObjectId sess db4)"
  have fin: "db' = db5"
    using rs_success_blocks [OF run sid sess db1_def db2_def db3_def db5_def [unfolded db4_def]]
    by simp
  have "user db1 x = None" using x by (simp add: db1_def)
  then have "user db2 x = None" unfolding db2_def by (rule urr_user_None)
  then have "user db3 x = None" unfolding db3_def by (rule cl_user_None)
  then have "user db4 x = None" by (simp add: db4_def msc_user)
  then have "user db5 x = None" unfolding db5_def by (rule bl_user_None)
  then show ?thesis by (simp add: fin)
qed

lemma rs_success_user:
  assumes run: "rate_session rnd ObjectId now1 now2 (Some db) req = (Inr r, Some db')"
    and sid: "ObjectId (RatingRequest.session_id req) = Some sid"
    and sess: "session db sid = Some sess"
    and x: "user db x = Some u"
  shows "\<exists>u'. user db' x = Some u' \<and>
     rating_count u' = rating_count u + (if ObjectId (RatingRequest.ratee_id req) = Some x then 1 else 0) \<and>
     rating_avg u' =
       (if ObjectId (RatingRequest.ratee_id req) = Some x
        then fdiv rnd (fadd rnd (fmul rnd (rating_avg u) (float_of_int rnd (rating_count u)))
                  (float_of_int rnd (RatingRequest.score req)))
                (float_of_int rnd (rating_count u + 1))
        else rating_avg u) \<and>
     coins u' = coins u
        + (if truthy (teacher_id sess) \<and> truthy (learner_id sess) \<and>
              ObjectId (the (teacher_id sess)) = Some x then 10 else 0)
        - (if truthy (teacher_id sess) \<and> truthy (learner_id sess) \<and>
              ObjectId (the (learner_id sess)) = Some x then 10 else 0) \<and>
     teaching_sessions u' = teaching_sessions u
        + (if truthy (teacher_id sess) \<and> truthy (learner_id sess) \<and>
              ObjectId (the (teacher_id sess)) = Some x then 1 else 0) \<and>
     learning_sessions u' = learning_sessions u
        + (if truthy (teacher_id sess) \<and> truthy (learner_id sess) \<and>
              ObjectId (the (learner_id sess)) = Some x then 1 else 0) \<and>
     badges u' =
       (if truthy (teacher_id sess) \<and> ObjectId (the (teacher_id sess)) = Some x
        then badges u \<union> (if teaching_sessions u' \<ge> 10 then {''Top Mentor''} else {})
                      \<union> (if learning_sessions u' + teaching_sessions u' \<ge> 5 then {''Skill Streak''} else {})
                      \<union> (if rating_avg u' > 4.5 then {''Helpful Teacher''} else {})
        else badges u)"
proof -
  define db1 where "db1 = db\<lparr>rating := rating db @
            [\<lparr>Rating.session_id = RatingRequest.session_id req,
              Rating.rater_id = RatingRequest.rater_id req,
              Rating.ratee_id = RatingRequest.ratee_id req,
              Rating.score = RatingRequest.score req,
              Rating.feedback = RatingRequest.feedback req,
              Rating.created_at = Some now1\<rparr>]\<rparr>"
  define db2 where "db2 = snd (update_ratee_rating rnd ObjectId req db1)"
  define db3 where "db3 = snd (coins_logic ObjectId sess db2)"
  define db4 where "db4 = mark_session_completed sid now2 db3"
  define db5 where "db5 = snd (badges_logic ObjectId sess db4)"
  note blocks = rs_success_blocks [OF run sid sess db1_def db2_def db3_def db5_def [unfolded db4_def]]
  have fin: "db' = db5" using blocks by simp
  have ok1: "fst (update_ratee_rating rnd ObjectId req db1) = None" using blocks by simp
  have ok2: "fst (coins_logic ObjectId sess db2) = None" using blocks by simp
  have ok3: "fst (badges_logic ObjectId sess db4) = None" using blocks by (simp add: db4_def)
  have x1: "user db1 x = Some u" using x by (simp add: db1_def)
  obtain u2 where x2: "user db2 x = Some u2"
    and a2: "rating_count u2 = rating_count u
               + (if ObjectId (RatingRequest.ratee_id req) = Some x then 1 else 0)"
      "rating_avg u2 =
       (if ObjectId (RatingRequest.ratee_id req) = Some x
        then fdiv rnd (fadd rnd (fmul rnd (rating_avg u) (float_of_int rnd (rating_count u)))
                  (float_of_int rnd (RatingRequest.score req)))
                (float_of_int rnd (rating_count u + 1))
        else rating_avg u)"
    using urr_success_user [OF ok1 x1] unfolding db2_def by blast
  have b2: "coins u2 = coins u" "badges u2 = badges u"
      "teaching_sessions u2 = teaching_sessions u" "learning_sessions u2 = learning_sessions u"
    using urr_user_Some [OF x1, of rnd ObjectId req] x2 unfolding db2_def by auto
  obtain u3 where x3: "user db3 x = Some u3"
    and a3: "coins u3 = coins u2
        + (if truthy (teacher_id sess) \<and> truthy (learner_id sess) \<and>
              ObjectId (the (teacher_id sess)) = Some x then 10 else 0)
        - (if truthy (teacher_id sess) \<and> truthy (learner_id sess) \<and>
              ObjectId (the (learner_id sess)) = Some x then 10 else 0)"
      "teaching_sessions u3 = teaching_sessions u2
        + (if truthy (teacher_id sess) \<and> truthy (learner_id sess) \<and>
              ObjectId (the (teacher_id sess)) = Some x then 1 else 0)"
      "learning_sessions u3 = learning_sessions u2
        + (if truthy (teacher_id sess) \<and> truthy (learner_id sess) \<and>
              ObjectId (the (learner_id sess)) = Some x then 1 else 0)"
    using cl_success_user [OF ok2 x2] unfolding db3_def by blast
  have b3: "rating_avg u3 = rating_avg u2" "rating_count u3 = rating_count u2" "badges u3 = badges u2"
    using cl_user_Some [OF x2, of ObjectId sess] x3 unfolding db3_def by auto
  have x4: "user db4 x = Some u3" by (simp add: db4_def msc_user x3)
  obtain u5 where x5: "user db5 x = Some u5"
    and a5: "badges u5 =
       (if truthy (teacher_id sess) \<and> ObjectId (the (teacher_id sess)) = Some x
        then badges u3 \<union> (if teaching_sessions u3 \<ge> 10 then {''Top Mentor''} else {})
                      \<union> (if learning_sessions u3 + teaching_sessions u3 \<ge> 5 then {''Skill Streak''} else {})
                      \<union> (if rating_avg u3 > 4.5 then {''Helpful Teacher''} else {})
        else badges u3)"
    using bl_success_user [OF ok3 x4] unfolding db5_def by blast
  have b5: "rating_avg u5 = rating_avg u3" "rating_count u5 = rating_count u3" "coins u5 = coins u3"
      "teaching_sessions u5 = teaching_sessions u3" "learning_sessions u5 = learning_sessions u3"
    using bl_user_Some [OF x4, of ObjectId sess] x5 unfolding db5_def by auto
  show ?thesis
    unfolding fin using x5 a5 by (simp only: b5 a3 b3 a2 b2 option.inject simp_thms ex_simps)
qed

section \<open>Rejected requests\<close>

text \<open>
  C6. A request whose score lies outside 1..5 (0 or 6, say) is answered with status
  400, ``Score must be 1-5'', and the store is left exactly as it was: no rating is
  inserted, no user and no session is changed.
\<close>

theorem score_out_of_range_rejected:
  "RatingRequest.score req < 1 \<or> 5 < RatingRequest.score req \<Longrightarrow>
   rate_session rnd ObjectId now1 now2 (Some db) req
     = (Inl (HTTPException 400 ''Score must be 1-5''), Some db)"
  by (auto simp: rate_session_def)

theorem score_out_of_range_rejected_witness:
  "rate_session no_rounding hex_ObjectId 1 2 (Some example_db) (example_req\<lparr>RatingRequest.score := 0\<rparr>)
     = (Inl (HTTPException 400 ''Score must be 1-5''), Some example_db) \<and>
   rate_session no_rounding hex_ObjectId 1 2 (Some example_db) (example_req\<lparr>RatingRequest.score := 6\<rparr>)
     = (Inl (HTTPException 400 ''Score must be 1-5''), Some example_db)"
  using score_out_of_range_rejected
          [where req = "example_req\<lparr>RatingRequest.score := 0\<rparr>" and ObjectId = hex_ObjectId and rnd = no_rounding
             and ?now1.0 = 1 and ?now2.0 = 2 and db = example_db]
        score_out_of_range_rejected
          [where req = "example_req\<lparr>RatingRequest.score := 6\<rparr>" and ObjectId = hex_ObjectId and rnd = no_rounding
             and ?now1.0 = 1 and ?now2.0 = 2 and db = example_db]
  by simp

text \<open>
  C7. A request with a valid score whose session id is well-formed but names no
  session document is answered with status 404, ``Session not found'', and the
  store is left exactly as it was.
\<close>

theorem unknown_session_not_found:
  assumes "1 \<le> RatingRequest.score req" and "RatingRequest.score req \<le> 5"
    and "ObjectId (RatingRequest.session_id req) = Some sid"
    and "session db sid = None"
  shows "rate_session rnd ObjectId now1 now2 (Some db) req
           = (Inl (HTTPException 404 ''Session not found''), Some db)"
  using assms by (simp add: rate_session_def oid_def find_one_def)

theorem unknown_session_not_found_witness:
  "rate_session no_rounding hex_ObjectId 1 2 (Some example_db)
     (example_req\<lparr>RatingRequest.session_id := ''0000000000000000000000ff''\<rparr>)
     = (Inl (HTTPException 404 ''Session not found''), Some example_db)"
  by (rule unknown_session_not_found [where sid = "''0000000000000000000000ff''"])
     (simp_all add: example_req_def example_db_def hex_ObjectId_def lower_hex_def)

section \<open>Settlement\<close>



section \<open>When a call succeeds\<close>

text \<open>
  A call returns \<open>{"ok": True}\<close> as soon as the score is valid, the session exists,
  the ratee id parses, the ratee's count is not \<open>-1\<close>, and the session's teacher and
  learner ids parse wherever the handler parses them.
\<close>

lemma rs_succeeds:
  assumes score: "1 \<le> RatingRequest.score req" "RatingRequest.score req \<le> 5"
    and sid: "ObjectId (RatingRequest.session_id req) = Some sid"
    and sess: "session db sid = Some sess"
    and rid: "ObjectId (RatingRequest.ratee_id req) = Some rid"
    and count: "\<And>u. user db rid = Some u \<Longrightarrow> rating_count u + 1 \<noteq> 0"
    and t: "truthy (teacher_id sess) \<Longrightarrow> ObjectId (the (teacher_id sess)) \<noteq> None"
    and l: "truthy (teacher_id sess) \<Longrightarrow> truthy (learner_id sess) \<Longrightarrow>
              ObjectId (the (learner_id sess)) \<noteq> None"
  shows "\<exists>db'. rate_session rnd ObjectId now1 now2 (Some db) req = (Inr [(''ok'', True)], Some db')"
proof -
  define db1 where "db1 = db\<lparr>rating := rating db @
            [\<lparr>Rating.session_id = RatingRequest.session_id req,
              Rating.rater_id = RatingRequest.rater_id req,
              Rating.ratee_id = RatingRequest.ratee_id req,
              Rating.score = RatingRequest.score req,
              Rating.feedback = RatingRequest.feedback req,
              Rating.created_at = Some now1\<rparr>]\<rparr>"
  define db2 where "db2 = snd (update_ratee_rating rnd ObjectId req db1)"
  define db3 where "db3 = snd (coins_logic ObjectId sess db2)"
  define db5 where "db5 = snd (badges_logic ObjectId sess (mark_session_completed sid now2 db3))"
  have u1: "user db1 = user db" by (simp add: db1_def)
  have ok1: "fst (update_ratee_rating rnd ObjectId req db1) = None"
    using rid count by (rule urr_succeeds [where ObjectId = ObjectId and rnd = rnd]) (simp add: u1)
  have ok2: "fst (coins_logic ObjectId sess db2) = None"
    using t l by (intro cl_succeeds) simp
  have ok3: "fst (badges_logic ObjectId sess (mark_session_completed sid now2 db3)) = None"
    using t by (intro bl_succeeds) simp
  show ?thesis
    using rs_success_store [OF score sid sess db1_def db2_def db3_def db5_def,
            of "[(''ok'', True)]" "Some db5"] ok1 ok2 ok3
    by blast
qed

lemma rs_badges_mono:
  assumes x: "user db x = Some u"
  shows "\<exists>db' u'. snd (rate_session rnd ObjectId now1 now2 (Some db) req) = Some db' \<and>
           user db' x = Some u' \<and> badges u \<subseteq> badges u'"
proof (cases "1 \<le> RatingRequest.score req \<and> RatingRequest.score req \<le> 5 \<and>
              (\<exists>sid sess. ObjectId (RatingRequest.session_id req) = Some sid \<and> session db sid = Some sess)")
  case False
  then have "snd (rate_session rnd ObjectId now1 now2 (Some db) req) = Some db"
    by (intro rs_rejected_store) (cases "ObjectId (RatingRequest.session_id req)", auto)
  then show ?thesis using x by auto
next
  case True
  then obtain sid sess where score: "1 \<le> RatingRequest.score req" "RatingRequest.score req \<le> 5"
    and sid: "ObjectId (RatingRequest.session_id req) = Some sid"
    and sess: "session db sid = Some sess"
    by blast
  define db1 where "db1 = db\<lparr>rating := rating db @
            [\<lparr>Rating.session_id = RatingRequest.session_id req,
              Rating.rater_id = RatingRequest.rater_id req,
              Rating.ratee_id = RatingRequest.ratee_id req,
              Rating.score = RatingRequest.score req,
              Rating.feedback = RatingRequest.feedback req,
              Rating.created_at = Some now1\<rparr>]\<rparr>"
  define db2 where "db2 = snd (update_ratee_rating rnd ObjectId req db1)"
  define db3 where "db3 = snd (coins_logic ObjectId sess db2)"
  define db4 where "db4 = mark_session_completed sid now2 db3"
  define db5 where "db5 = snd (badges_logic ObjectId sess db4)"
  have x1: "user db1 x = Some u" using x by (simp add: db1_def)
  obtain u2 where x2: "user db2 x = Some u2" and b2: "badges u2 = badges u"
    using urr_user_Some [OF x1, of rnd ObjectId req] unfolding db2_def by blast
  obtain u3 where x3: "user db3 x = Some u3" and b3: "badges u3 = badges u2"
    using cl_user_Some [OF x2, of ObjectId sess] unfolding db3_def by blast
  have x4: "user db4 x = Some u3" by (simp add: db4_def msc_user x3)
  obtain u5 where x5: "user db5 x = Some u5" and b5: "badges u3 \<subseteq> badges u5"
    using bl_user_Some [OF x4, of ObjectId sess] unfolding db5_def by blast
  from rs_final_store [OF score sid sess db1_def db2_def db3_def db5_def [unfolded db4_def]]
  have "snd (rate_session rnd ObjectId now1 now2 (Some db) req) = Some db2 \<or>
        snd (rate_session rnd ObjectId now1 now2 (Some db) req) = Some db3 \<or>
        snd (rate_session rnd ObjectId now1 now2 (Some db) req) = Some db5"
    by blast
  then show ?thesis
    using x2 b2 x3 b3 x5 b5 by auto
qed

section \<open>Badges are only added\<close>

text \<open>
  C9. Over any sequence of calls of the handler, whether they succeed or raise, the
  badge set of a user (of a teacher in particular) never loses a label: a badge held
  before the calls is still held after them, whatever has become of the counters and
  of the average that granted it.
\<close>

theorem badges_never_removed:
  "user db x = Some u \<Longrightarrow>
   \<exists>db' u'. rate_sessions rnd ObjectId (Some db) calls = Some db' \<and>
      user db' x = Some u' \<and> badges u \<subseteq> badges u'"
proof (induction calls arbitrary: db u)
  case Nil
  then show ?case by simp
next
  case (Cons c calls)
  obtain now1 now2 req where c: "c = (now1, now2, req)"
    by (cases c) auto
  obtain db1 u1 where s1: "snd (rate_session rnd ObjectId now1 now2 (Some db) req) = Some db1"
    and x1: "user db1 x = Some u1" and b1: "badges u \<subseteq> badges u1"
    using rs_badges_mono [OF Cons.prems] by blast
  obtain db' u' where "rate_sessions rnd ObjectId (Some db1) calls = Some db'"
    and "user db' x = Some u'" and "badges u1 \<subseteq> badges u'"
    using Cons.IH [OF x1] by blast
  then show ?case
    using b1 by (auto simp: c s1)
qed


text \<open>
  In the example store the learner keeps ``Early Bird'' over two calls; the teacher
  earns ``Helpful Teacher'' with the first rating and keeps it after a second rating
  of 1 has brought the average down to \<open>7 / 2\<close>.
\<close>

theorem badges_never_removed_witness:
  "(\<exists>db' u'. rate_sessions no_rounding hex_ObjectId (Some example_db)
        [(1, 2, example_req), (3, 4, example_req\<lparr>RatingRequest.score := 1\<rparr>)] = Some db' \<and>
      user db' ''0000000000000000000000a2'' = Some u' \<and> ''Early Bird'' \<in> badges u') \<and>
   map_option (\<lambda>u. (rating_avg u, badges u))
     (user (the (rate_sessions no_rounding hex_ObjectId (Some example_db)
        [(1, 2, example_req), (3, 4, example_req\<lparr>RatingRequest.score := 1\<rparr>)]))
      ''0000000000000000000000a1'')
   = Some (7 / 2, {''Top Mentor'', ''Skill Streak'', ''Helpful Teacher''})"
proof -
  have "user example_db ''0000000000000000000000a2'' =
      Some \<lparr>coins = 5, rating_avg = 0, rating_count = 0, badges = {''Early Bird''},
            teaching_sessions = 0, learning_sessions = 2\<rparr>"
    by (simp add: example_db_def)
  from badges_never_removed [OF this, of no_rounding hex_ObjectId
         "[(1, 2, example_req), (3, 4, example_req\<lparr>RatingRequest.score := 1\<rparr>)]"]
  have learner: "\<exists>db' u'. rate_sessions no_rounding hex_ObjectId (Some example_db)
        [(1, 2, example_req), (3, 4, example_req\<lparr>RatingRequest.score := 1\<rparr>)] = Some db' \<and>
      user db' ''0000000000000000000000a2'' = Some u' \<and> ''Early Bird'' \<in> badges u'"
    by auto
  have teacher: "map_option (\<lambda>u. (rating_avg u, badges u))
     (user (the (rate_sessions no_rounding hex_ObjectId (Some example_db)
        [(1, 2, example_req), (3, 4, example_req\<lparr>RatingRequest.score := 1\<rparr>)]))
      ''0000000000000000000000a1'')
   = Some (7 / 2, {''Top Mentor'', ''Skill Streak'', ''Helpful Teacher''})"
    by (auto simp add: run_simps)
  show ?thesis
    using learner teacher by (rule conjI)
qed

section \<open>Coins and counters\<close>

text \<open>
  C2 does not hold as stated: in session \<open>...f2\<close> of the example store the teacher
  and the learner are the same user, the call succeeds, and that user's coins are 20
  before and 20 after, since the increments of lines 341 and 342 hit one document.
\<close>

theorem coins_same_user_counterexample:
  "fst (rate_session no_rounding hex_ObjectId 1 2 (Some example_db)
          (example_req\<lparr>RatingRequest.session_id := ''0000000000000000000000f2''\<rparr>))
     = Inr [(''ok'', True)] \<and>
   map_option teacher_id (session example_db ''0000000000000000000000f2'')
     = Some (Some ''0000000000000000000000a3'') \<and>
   map_option learner_id (session example_db ''0000000000000000000000f2'')
     = Some (Some ''0000000000000000000000a3'') \<and>
   map_option coins (user example_db ''0000000000000000000000a3'') = Some 20 \<and>
   map_option coins (user (the (snd (rate_session no_rounding hex_ObjectId 1 2 (Some example_db)
          (example_req\<lparr>RatingRequest.session_id := ''0000000000000000000000f2''\<rparr>))))
        ''0000000000000000000000a3'') = Some 20"
  by (simp add: run_simps)

text \<open>
  C2, amended. When a call succeeds on a session whose \<open>teacher_id\<close> and
  \<open>learner_id\<close> are both populated, both ids are well-formed, and every user
  document ends with its coins changed by +10 if it is the teacher's and by -10 if it
  is the learner's, with \<open>teaching_sessions\<close> one higher if it is the teacher's and
  \<open>learning_sessions\<close> one higher if it is the learner's, whatever the balances
  were (a balance may become negative). For two different users this is +10 for the
  teacher and -10 for the learner. A document that is absent stays absent, and the
  other increment is applied all the same.
\<close>

theorem coins_settlement:
  assumes run: "rate_session rnd ObjectId now1 now2 (Some db) req = (Inr r, Some db')"
    and sid: "ObjectId (RatingRequest.session_id req) = Some sid"
    and sess: "session db sid = Some sess"
    and ts: "teacher_id sess = Some ts" "ts \<noteq> []"
    and ls: "learner_id sess = Some ls" "ls \<noteq> []"
  shows "\<exists>tid lid. ObjectId ts = Some tid \<and> ObjectId ls = Some lid \<and>
     (\<forall>x. case user db x of
            None \<Rightarrow> user db' x = None
          | Some u \<Rightarrow>
              (\<exists>u'. user db' x = Some u' \<and>
                 coins u' = coins u + (if x = tid then 10 else 0) - (if x = lid then 10 else 0) \<and>
                 teaching_sessions u' = teaching_sessions u + (if x = tid then 1 else 0) \<and>
                 learning_sessions u' = learning_sessions u + (if x = lid then 1 else 0)))"
proof -
  have tr: "truthy (teacher_id sess)" "truthy (learner_id sess)"
    using ts ls by (simp_all add: truthy_def)
  obtain tid lid where tid: "ObjectId ts = Some tid" and lid: "ObjectId ls = Some lid"
    using rs_success_ids(2,3) [OF run sid sess] tr ts ls by auto
  have "case user db x of
            None \<Rightarrow> user db' x = None
          | Some u \<Rightarrow>
              (\<exists>u'. user db' x = Some u' \<and>
                 coins u' = coins u + (if x = tid then 10 else 0) - (if x = lid then 10 else 0) \<and>
                 teaching_sessions u' = teaching_sessions u + (if x = tid then 1 else 0) \<and>
                 learning_sessions u' = learning_sessions u + (if x = lid then 1 else 0))" for x
  proof (cases "user db x")
    case None
    then show ?thesis using rs_success_absent [OF run sid sess] by simp
  next
    case (Some u)
    obtain u' where "user db' x = Some u'"
      and "coins u' = coins u
        + (if truthy (teacher_id sess) \<and> truthy (learner_id sess) \<and>
              ObjectId (the (teacher_id sess)) = Some x then 10 else 0)
        - (if truthy (teacher_id sess) \<and> truthy (learner_id sess) \<and>
              ObjectId (the (learner_id sess)) = Some x then 10 else 0)"
      and "teaching_sessions u' = teaching_sessions u
        + (if truthy (teacher_id sess) \<and> truthy (learner_id sess) \<and>
              ObjectId (the (teacher_id sess)) = Some x then 1 else 0)"
      and "learning_sessions u' = learning_sessions u
        + (if truthy (teacher_id sess) \<and> truthy (learner_id sess) \<and>
              ObjectId (the (learner_id sess)) = Some x then 1 else 0)"
      using rs_success_user [OF run sid sess Some] by blast
    then show ?thesis
      using Some tr ts ls tid lid by (auto simp: eq_commute [of x])
  qed
  then show ?thesis using tid lid by blast
qed

theorem coins_settlement_witness:
  "(\<exists>u'. user (the (snd (rate_session no_rounding hex_ObjectId 1 2 (Some example_db) example_req)))
            ''0000000000000000000000a1'' = Some u' \<and>
         coins u' = 30 \<and> teaching_sessions u' = 10 \<and> learning_sessions u' = 0) \<and>
   (\<exists>u'. user (the (snd (rate_session no_rounding hex_ObjectId 1 2 (Some example_db) example_req)))
            ''0000000000000000000000a2'' = Some u' \<and>
         coins u' = - 5 \<and> teaching_sessions u' = 0 \<and> learning_sessions u' = 3)"
proof -
  have run: "rate_session no_rounding hex_ObjectId 1 2 (Some example_db) example_req =
      (Inr [(''ok'', True)], Some (the (snd (rate_session no_rounding hex_ObjectId 1 2 (Some example_db) example_req))))"
    by (simp add: run_simps)
  have sid: "hex_ObjectId (RatingRequest.session_id example_req) = Some ''0000000000000000000000f1''"
    by (simp add: example_req_def hex_ObjectId_def lower_hex_def)
  have sess: "session example_db ''0000000000000000000000f1'' =
      Some \<lparr>teacher_id = Some ''0000000000000000000000a1'',
            learner_id = Some ''0000000000000000000000a2'', status = scheduled, updated_at = None\<rparr>"
    by (simp add: example_db_def)
  obtain tid lid where ids: "hex_ObjectId ''0000000000000000000000a1'' = Some tid"
      "hex_ObjectId ''0000000000000000000000a2'' = Some lid"
    and eff: "\<And>x. case user example_db x of
            None \<Rightarrow> user (the (snd (rate_session no_rounding hex_ObjectId 1 2 (Some example_db) example_req))) x = None
          | Some u \<Rightarrow>
              (\<exists>u'. user (the (snd (rate_session no_rounding hex_ObjectId 1 2 (Some example_db) example_req))) x = Some u' \<and>
                 coins u' = coins u + (if x = tid then 10 else 0) - (if x = lid then 10 else 0) \<and>
                 teaching_sessions u' = teaching_sessions u + (if x = tid then 1 else 0) \<and>
                 learning_sessions u' = learning_sessions u + (if x = lid then 1 else 0))"
    using coins_settlement [OF run sid sess, of "''0000000000000000000000a1''"
            "''0000000000000000000000a2''"]
    by auto
  have tid: "tid = ''0000000000000000000000a1''" and lid: "lid = ''0000000000000000000000a2''"
    using ids by (simp_all add: hex_ObjectId_def lower_hex_def)
  show ?thesis
    using eff [of "''0000000000000000000000a1''"] eff [of "''0000000000000000000000a2''"]
    by (simp add: tid lid example_db_def)
qed

lemma rs_success_user_ids:
  assumes run: "rate_session rnd ObjectId now1 now2 (Some db) req = (Inr r, Some db')"
    and sid: "ObjectId (RatingRequest.session_id req) = Some sid"
    and sess: "session db sid = Some sess"
    and ts: "teacher_id sess = Some ts" "ts \<noteq> []" "ObjectId ts = Some tid"
    and ls: "learner_id sess = Some ls" "ls \<noteq> []" "ObjectId ls = Some lid"
    and rid: "ObjectId (RatingRequest.ratee_id req) = Some rid"
    and x: "user db x = Some u"
  shows "\<exists>u'. user db' x = Some u' \<and>
     rating_count u' = rating_count u + (if x = rid then 1 else 0) \<and>
     rating_avg u' =
       (if x = rid
        then fdiv rnd (fadd rnd (fmul rnd (rating_avg u) (float_of_int rnd (rating_count u)))
                  (float_of_int rnd (RatingRequest.score req)))
                (float_of_int rnd (rating_count u + 1))
        else rating_avg u) \<and>
     coins u' = coins u + (if x = tid then 10 else 0) - (if x = lid then 10 else 0) \<and>
     teaching_sessions u' = teaching_sessions u + (if x = tid then 1 else 0) \<and>
     learning_sessions u' = learning_sessions u + (if x = lid then 1 else 0) \<and>
     badges u' =
       (if x = tid
        then badges u \<union> (if teaching_sessions u' \<ge> 10 then {''Top Mentor''} else {})
                      \<union> (if learning_sessions u' + teaching_sessions u' \<ge> 5 then {''Skill Streak''} else {})
                      \<union> (if rating_avg u' > 4.5 then {''Helpful Teacher''} else {})
        else badges u)"
proof -
  have tr: "truthy (teacher_id sess)" "truthy (learner_id sess)"
    using ts ls by (simp_all add: truthy_def)
  have c: "(ObjectId (RatingRequest.ratee_id req) = Some x) = (x = rid)"
      "(ObjectId (the (teacher_id sess)) = Some x) = (x = tid)"
      "(ObjectId (the (learner_id sess)) = Some x) = (x = lid)"
    using ts ls rid by auto
  show ?thesis
    using rs_success_user [OF run sid sess x] unfolding c by (simp only: tr simp_thms)
qed

section \<open>Badges of the teacher\<close>

text \<open>
  C3. After a successful call every user document that existed is still there, and
  its badge set is the old one unless the document is the teacher's (the session's
  \<open>teacher_id\<close> is populated and parses to its id): then it is the old set together
  with ``Top Mentor'' when \<open>teaching_sessions \<ge> 10\<close>, ``Skill Streak'' when
  \<open>learning_sessions + teaching_sessions \<ge> 5\<close> and ``Helpful Teacher'' when
  \<open>rating_avg > 4.5\<close>, all three read from the document as it is after the
  increments of the coins block. No other document's badges are written, the
  learner's included.
\<close>

theorem teacher_badges_recomputed:
  assumes run: "rate_session rnd ObjectId now1 now2 (Some db) req = (Inr r, Some db')"
    and sid: "ObjectId (RatingRequest.session_id req) = Some sid"
    and sess: "session db sid = Some sess"
    and x: "user db x = Some u"
  shows "\<exists>u'. user db' x = Some u' \<and>
     teaching_sessions u' = teaching_sessions u
        + (if truthy (teacher_id sess) \<and> truthy (learner_id sess) \<and>
              ObjectId (the (teacher_id sess)) = Some x then 1 else 0) \<and>
     learning_sessions u' = learning_sessions u
        + (if truthy (teacher_id sess) \<and> truthy (learner_id sess) \<and>
              ObjectId (the (learner_id sess)) = Some x then 1 else 0) \<and>
     badges u' =
       (if truthy (teacher_id sess) \<and> ObjectId (the (teacher_id sess)) = Some x
        then badges u \<union> (if teaching_sessions u' \<ge> 10 then {''Top Mentor''} else {})
                      \<union> (if learning_sessions u' + teaching_sessions u' \<ge> 5 then {''Skill Streak''} else {})
                      \<union> (if rating_avg u' > 4.5 then {''Helpful Teacher''} else {})
        else badges u)"
  using rs_success_user [OF run sid sess x] by blast

theorem teacher_badges_recomputed_witness:
  "(\<exists>u'. user (the (snd (rate_session no_rounding hex_ObjectId 1 2 (Some example_db) example_req)))
            ''0000000000000000000000a1'' = Some u' \<and> teaching_sessions u' = 10 \<and>
         badges u' = {''Top Mentor'', ''Skill Streak'', ''Helpful Teacher''}) \<and>
   (\<exists>u'. user (the (snd (rate_session no_rounding hex_ObjectId 1 2 (Some example_db) example_req)))
            ''0000000000000000000000a2'' = Some u' \<and> learning_sessions u' = 3 \<and>
         badges u' = {''Early Bird''})"
proof -
  have run: "rate_session no_rounding hex_ObjectId 1 2 (Some example_db) example_req =
      (Inr [(''ok'', True)], Some (the (snd (rate_session no_rounding hex_ObjectId 1 2 (Some example_db) example_req))))"
    by (simp add: run_simps)
  have sid: "hex_ObjectId (RatingRequest.session_id example_req) = Some ''0000000000000000000000f1''"
    by (simp add: example_req_def hex_ObjectId_def lower_hex_def)
  have sess: "session example_db ''0000000000000000000000f1'' =
      Some \<lparr>teacher_id = Some ''0000000000000000000000a1'',
            learner_id = Some ''0000000000000000000000a2'', status = scheduled, updated_at = None\<rparr>"
    by (simp add: example_db_def)
  have t: "user example_db ''0000000000000000000000a1'' =
      Some \<lparr>coins = 20, rating_avg = 4.5, rating_count = 1, badges = {},
            teaching_sessions = 9, learning_sessions = 0\<rparr>"
    by (simp add: example_db_def)
  have l: "user example_db ''0000000000000000000000a2'' =
      Some \<lparr>coins = 5, rating_avg = 0, rating_count = 0, badges = {''Early Bird''},
            teaching_sessions = 0, learning_sessions = 2\<rparr>"
    by (simp add: example_db_def)
  have avg: "map_option rating_avg
       (user (the (snd (rate_session no_rounding hex_ObjectId 1 2 (Some example_db) example_req)))
          ''0000000000000000000000a1'') = Some (19 / 4)"
    by (simp add: run_simps)
  show ?thesis
    using teacher_badges_recomputed [OF run sid sess t] teacher_badges_recomputed [OF run sid sess l] avg
    by (auto simp: truthy_def hex_ObjectId_def lower_hex_def)
qed


section \<open>A ratee without a user document\<close>

text \<open>
  C8. When the ratee id is well-formed but names no user document (and the session's
  teacher and learner ids are populated and well-formed), the call raises nothing
  and returns \<open>{"ok": True}\<close>: no rating average or count is changed, no document
  is created for the ratee, and the other blocks run as usual, that is the coins and
  counters of teacher and learner are incremented, the session is marked completed
  and the teacher's badges are recomputed.
\<close>

theorem absent_ratee_skipped:
  assumes score: "1 \<le> RatingRequest.score req" "RatingRequest.score req \<le> 5"
    and sid: "ObjectId (RatingRequest.session_id req) = Some sid"
    and sess: "session db sid = Some sess"
    and ts: "teacher_id sess = Some ts" "ts \<noteq> []" "ObjectId ts = Some tid"
    and ls: "learner_id sess = Some ls" "ls \<noteq> []" "ObjectId ls = Some lid"
    and rid: "ObjectId (RatingRequest.ratee_id req) = Some rid"
    and absent: "user db rid = None"
  shows "\<exists>db'. rate_session rnd ObjectId now1 now2 (Some db) req = (Inr [(''ok'', True)], Some db') \<and>
     user db' rid = None \<and>
     session db' sid = Some (sess\<lparr>status := completed, updated_at := Some now2\<rparr>) \<and>
     (\<forall>x u. user db x = Some u \<longrightarrow>
        (\<exists>u'. user db' x = Some u' \<and>
           rating_count u' = rating_count u \<and> rating_avg u' = rating_avg u \<and>
           coins u' = coins u + (if x = tid then 10 else 0) - (if x = lid then 10 else 0) \<and>
           teaching_sessions u' = teaching_sessions u + (if x = tid then 1 else 0) \<and>
           learning_sessions u' = learning_sessions u + (if x = lid then 1 else 0) \<and>
           badges u' =
             (if x = tid
              then badges u \<union> (if teaching_sessions u' \<ge> 10 then {''Top Mentor''} else {})
                     \<union> (if learning_sessions u' + teaching_sessions u' \<ge> 5 then {''Skill Streak''} else {})
                     \<union> (if rating_avg u' > 4.5 then {''Helpful Teacher''} else {})
              else badges u)))"
proof -
  obtain db' where run: "rate_session rnd ObjectId now1 now2 (Some db) req = (Inr [(''ok'', True)], Some db')"
    using rs_succeeds [OF score sid sess rid, of rnd now1 now2] absent ts ls by auto
  have "user db' rid = None"
    using rs_success_absent [OF run sid sess absent] .
  moreover have "session db' sid = Some (sess\<lparr>status := completed, updated_at := Some now2\<rparr>)"
    using rs_success_session(1) [OF run sid sess] by simp
  moreover have "\<exists>u'. user db' x = Some u' \<and>
           rating_count u' = rating_count u \<and> rating_avg u' = rating_avg u \<and>
           coins u' = coins u + (if x = tid then 10 else 0) - (if x = lid then 10 else 0) \<and>
           teaching_sessions u' = teaching_sessions u + (if x = tid then 1 else 0) \<and>
           learning_sessions u' = learning_sessions u + (if x = lid then 1 else 0) \<and>
           badges u' =
             (if x = tid
              then badges u \<union> (if teaching_sessions u' \<ge> 10 then {''Top Mentor''} else {})
                     \<union> (if learning_sessions u' + teaching_sessions u' \<ge> 5 then {''Skill Streak''} else {})
                     \<union> (if rating_avg u' > 4.5 then {''Helpful Teacher''} else {})
              else badges u)" if x: "user db x = Some u" for x u
  proof -
    have ne: "x \<noteq> rid" using x absent by auto
    show ?thesis
      using rs_success_user_ids [OF run sid sess ts ls rid x] ne by (simp only: if_False add_0_right)
  qed
  ultimately show ?thesis using run by blast
qed

theorem absent_ratee_skipped_witness:
  "\<exists>db'. rate_session no_rounding hex_ObjectId 1 2 (Some example_db)
            (example_req\<lparr>RatingRequest.ratee_id := ''0000000000000000000000a9''\<rparr>)
          = (Inr [(''ok'', True)], Some db') \<and>
     user db' ''0000000000000000000000a9'' = None \<and>
     map_option status (session db' ''0000000000000000000000f1'') = Some completed \<and>
     map_option coins (user db' ''0000000000000000000000a1'') = Some 30 \<and>
     map_option rating_count (user db' ''0000000000000000000000a1'') = Some 1"
proof -
  have t: "user example_db ''0000000000000000000000a1'' =
      Some \<lparr>coins = 20, rating_avg = 4.5, rating_count = 1, badges = {},
            teaching_sessions = 9, learning_sessions = 0\<rparr>"
    by (simp add: example_db_def)
  have sc: "1 \<le> RatingRequest.score (example_req\<lparr>RatingRequest.ratee_id := ''0000000000000000000000a9''\<rparr>)"
      "RatingRequest.score (example_req\<lparr>RatingRequest.ratee_id := ''0000000000000000000000a9''\<rparr>) \<le> 5"
    by (simp_all add: example_req_def)
  have sid: "hex_ObjectId (RatingRequest.session_id
        (example_req\<lparr>RatingRequest.ratee_id := ''0000000000000000000000a9''\<rparr>))
      = Some ''0000000000000000000000f1''"
    by (simp add: example_req_def hex_ObjectId_def lower_hex_def)
  have sess: "session example_db ''0000000000000000000000f1'' =
      Some \<lparr>teacher_id = Some ''0000000000000000000000a1'',
            learner_id = Some ''0000000000000000000000a2'', status = scheduled, updated_at = None\<rparr>"
    by (simp add: example_db_def)
  have ts: "teacher_id \<lparr>teacher_id = Some ''0000000000000000000000a1'',
            learner_id = Some ''0000000000000000000000a2'', status = scheduled, updated_at = None\<rparr>
          = Some ''0000000000000000000000a1''"
      "''0000000000000000000000a1'' \<noteq> []"
      "hex_ObjectId ''0000000000000000000000a1'' = Some ''0000000000000000000000a1''"
    by (simp_all add: hex_ObjectId_def lower_hex_def)
  have ls: "learner_id \<lparr>teacher_id = Some ''0000000000000000000000a1'',
            learner_id = Some ''0000000000000000000000a2'', status = scheduled, updated_at = None\<rparr>
          = Some ''0000000000000000000000a2''"
      "''0000000000000000000000a2'' \<noteq> []"
      "hex_ObjectId ''0000000000000000000000a2'' = Some ''0000000000000000000000a2''"
    by (simp_all add: hex_ObjectId_def lower_hex_def)
  have rid: "hex_ObjectId (RatingRequest.ratee_id
        (example_req\<lparr>RatingRequest.ratee_id := ''0000000000000000000000a9''\<rparr>))
      = Some ''0000000000000000000000a9''"
    by (simp add: hex_ObjectId_def lower_hex_def)
  have absent: "user example_db ''0000000000000000000000a9'' = None"
    by (simp add: example_db_def)
  obtain db' where run: "rate_session no_rounding hex_ObjectId 1 2 (Some example_db)
            (example_req\<lparr>RatingRequest.ratee_id := ''0000000000000000000000a9''\<rparr>)
          = (Inr [(''ok'', True)], Some db')"
    and a: "user db' ''0000000000000000000000a9'' = None"
    and s: "session db' ''0000000000000000000000f1'' =
       Some (\<lparr>teacher_id = Some ''0000000000000000000000a1'',
            learner_id = Some ''0000000000000000000000a2'', status = scheduled, updated_at = None\<rparr>
             \<lparr>status := completed, updated_at := Some 2\<rparr>)"
    and eff: "\<forall>x u. user example_db x = Some u \<longrightarrow>
        (\<exists>u'. user db' x = Some u' \<and>
           rating_count u' = rating_count u \<and> rating_avg u' = rating_avg u \<and>
           coins u' = coins u + (if x = ''0000000000000000000000a1'' then 10 else 0)
                        - (if x = ''0000000000000000000000a2'' then 10 else 0) \<and>
           teaching_sessions u' = teaching_sessions u + (if x = ''0000000000000000000000a1'' then 1 else 0) \<and>
           learning_sessions u' = learning_sessions u + (if x = ''0000000000000000000000a2'' then 1 else 0) \<and>
           badges u' =
             (if x = ''0000000000000000000000a1''
              then badges u \<union> (if teaching_sessions u' \<ge> 10 then {''Top Mentor''} else {})
                     \<union> (if learning_sessions u' + teaching_sessions u' \<ge> 5 then {''Skill Streak''} else {})
                     \<union> (if rating_avg u' > 4.5 then {''Helpful Teacher''} else {})
              else badges u))"
    using absent_ratee_skipped [OF sc sid sess ts ls rid absent, of no_rounding 1 2] by blast
  obtain u' where "user db' ''0000000000000000000000a1'' = Some u'"
    and "rating_count u' = 1" and "coins u' = 30"
    using eff [rule_format, OF t] by auto
  then show ?thesis
    using run a s by auto
qed

section \<open>Settling a session twice\<close>

text \<open>
  C4. A successful call leaves the session with status \<open>completed\<close> and
  \<open>updated_at\<close> set to the time read in line 345, whatever its status was. The same
  request sent again to the store so obtained succeeds again (the ratee's count being
  non-negative), refreshes \<open>updated_at\<close>, inserts a second rating, and applies the
  coin deltas, the counter increments and the running-average step a second time on
  top of the first: nothing guards against the repetition. The average is the one
  the code computes, in double arithmetic; ``is the teacher'' and ``is the learner''
  are spelled out as in the handler (both ids populated, and parsing to the
  document's id).
\<close>

theorem repeated_settlement:
  assumes run: "rate_session rnd ObjectId now1 now2 (Some db) req = (Inr r, Some db1)"
    and sid: "ObjectId (RatingRequest.session_id req) = Some sid"
    and sess: "session db sid = Some sess"
    and rid: "ObjectId (RatingRequest.ratee_id req) = Some rid"
    and count: "\<forall>u. user db rid = Some u \<longrightarrow> 0 \<le> rating_count u"
  shows "session db1 sid = Some (sess\<lparr>status := completed, updated_at := Some now2\<rparr>) \<and>
     (\<exists>db2. rate_session rnd ObjectId now3 now4 (Some db1) req = (Inr [(''ok'', True)], Some db2) \<and>
        session db2 sid = Some (sess\<lparr>status := completed, updated_at := Some now4\<rparr>) \<and>
        length (rating db2) = length (rating db) + 2 \<and>
        (\<forall>x u. user db x = Some u \<longrightarrow>
           (\<exists>u1 u2. user db1 x = Some u1 \<and> user db2 x = Some u2 \<and>
              coins u1 = coins u
                + (if truthy (teacher_id sess) \<and> truthy (learner_id sess) \<and>
                      ObjectId (the (teacher_id sess)) = Some x then 10 else 0)
                - (if truthy (teacher_id sess) \<and> truthy (learner_id sess) \<and>
                      ObjectId (the (learner_id sess)) = Some x then 10 else 0) \<and>
              coins u2 = coins u1
                + (if truthy (teacher_id sess) \<and> truthy (learner_id sess) \<and>
                      ObjectId (the (teacher_id sess)) = Some x then 10 else 0)
                - (if truthy (teacher_id sess) \<and> truthy (learner_id sess) \<and>
                      ObjectId (the (learner_id sess)) = Some x then 10 else 0) \<and>
              teaching_sessions u1 = teaching_sessions u
                + (if truthy (teacher_id sess) \<and> truthy (learner_id sess) \<and>
                      ObjectId (the (teacher_id sess)) = Some x then 1 else 0) \<and>
              teaching_sessions u2 = teaching_sessions u1
                + (if truthy (teacher_id sess) \<and> truthy (learner_id sess) \<and>
                      ObjectId (the (teacher_id sess)) = Some x then 1 else 0) \<and>
              learning_sessions u1 = learning_sessions u
                + (if truthy (teacher_id sess) \<and> truthy (learner_id sess) \<and>
                      ObjectId (the (learner_id sess)) = Some x then 1 else 0) \<and>
              learning_sessions u2 = learning_sessions u1
                + (if truthy (teacher_id sess) \<and> truthy (learner_id sess) \<and>
                      ObjectId (the (learner_id sess)) = Some x then 1 else 0) \<and>
              rating_count u1 = rating_count u + (if x = rid then 1 else 0) \<and>
              rating_count u2 = rating_count u1 + (if x = rid then 1 else 0) \<and>
              rating_avg u1 =
                (if x = rid
                 then fdiv rnd (fadd rnd (fmul rnd (rating_avg u) (float_of_int rnd (rating_count u)))
                                  (float_of_int rnd (RatingRequest.score req)))
                        (float_of_int rnd (rating_count u + 1))
                 else rating_avg u) \<and>
              rating_avg u2 =
                (if x = rid
                 then fdiv rnd (fadd rnd (fmul rnd (rating_avg u1) (float_of_int rnd (rating_count u1)))
                                  (float_of_int rnd (RatingRequest.score req)))
                        (float_of_int rnd (rating_count u1 + 1))
                 else rating_avg u1))))"
proof -
  define sess1 where "sess1 = sess\<lparr>status := completed, updated_at := Some now2\<rparr>"
  have score: "1 \<le> RatingRequest.score req" "RatingRequest.score req \<le> 5"
    using rs_pre [OF run] by simp_all
  have s1: "session db1 sid = Some sess1"
    using rs_success_session(1) [OF run sid sess] by (simp add: sess1_def)
  have ids1: "teacher_id sess1 = teacher_id sess" "learner_id sess1 = learner_id sess"
    by (simp_all add: sess1_def)
  have c: "(ObjectId (RatingRequest.ratee_id req) = Some x) = (x = rid)" for x
    using rid by auto
  have count1: "rating_count u1 + 1 \<noteq> 0" if x1: "user db1 rid = Some u1" for u1
  proof (cases "user db rid")
    case None
    then show ?thesis using rs_success_absent [OF run sid sess None] x1 by simp
  next
    case (Some u)
    then have "0 \<le> rating_count u" using count by simp
    moreover have "rating_count u1 = rating_count u + 1"
      using rs_success_user [OF run sid sess Some] x1 unfolding c by auto
    ultimately show ?thesis by simp
  qed
  have t: "truthy (teacher_id sess1) \<Longrightarrow> ObjectId (the (teacher_id sess1)) \<noteq> None"
    using rs_success_ids(2) [OF run sid sess] by (simp add: ids1)
  have l: "truthy (teacher_id sess1) \<Longrightarrow> truthy (learner_id sess1) \<Longrightarrow>
              ObjectId (the (learner_id sess1)) \<noteq> None"
    using rs_success_ids(3) [OF run sid sess] by (simp add: ids1)
  obtain db2 where run2: "rate_session rnd ObjectId now3 now4 (Some db1) req = (Inr [(''ok'', True)], Some db2)"
    using rs_succeeds [OF score sid s1 rid count1 t l, of rnd now3 now4] by blast
  have s2: "session db2 sid = Some (sess\<lparr>status := completed, updated_at := Some now4\<rparr>)"
    using rs_success_session(1) [OF run2 sid s1] by (simp add: sess1_def)
  have len: "length (rating db2) = length (rating db) + 2"
    using rs_success_session(2) [OF run2 sid s1] rs_success_session(2) [OF run sid sess] by simp
  have users: "\<exists>u1 u2. user db1 x = Some u1 \<and> user db2 x = Some u2 \<and>
              coins u1 = coins u
                + (if truthy (teacher_id sess) \<and> truthy (learner_id sess) \<and>
                      ObjectId (the (teacher_id sess)) = Some x then 10 else 0)
                - (if truthy (teacher_id sess) \<and> truthy (learner_id sess) \<and>
                      ObjectId (the (learner_id sess)) = Some x then 10 else 0) \<and>
              coins u2 = coins u1
                + (if truthy (teacher_id sess) \<and> truthy (learner_id sess) \<and>
                      ObjectId (the (teacher_id sess)) = Some x then 10 else 0)
                - (if truthy (teacher_id sess) \<and> truthy (learner_id sess) \<and>
                      ObjectId (the (learner_id sess)) = Some x then 10 else 0) \<and>
              teaching_sessions u1 = teaching_sessions u
                + (if truthy (teacher_id sess) \<and> truthy (learner_id sess) \<and>
                      ObjectId (the (teacher_id sess)) = Some x then 1 else 0) \<and>
              teaching_sessions u2 = teaching_sessions u1
                + (if truthy (teacher_id sess) \<and> truthy (learner_id sess) \<and>
                      ObjectId (the (teacher_id sess)) = Some x then 1 else 0) \<and>
              learning_sessions u1 = learning_sessions u
                + (if truthy (teacher_id sess) \<and> truthy (learner_id sess) \<and>
                      ObjectId (the (learner_id sess)) = Some x then 1 else 0) \<and>
              learning_sessions u2 = learning_sessions u1
                + (if truthy (teacher_id sess) \<and> truthy (learner_id sess) \<and>
                      ObjectId (the (learner_id sess)) = Some x then 1 else 0) \<and>
              rating_count u1 = rating_count u + (if x = rid then 1 else 0) \<and>
              rating_count u2 = rating_count u1 + (if x = rid then 1 else 0) \<and>
              rating_avg u1 =
                (if x = rid
                 then fdiv rnd (fadd rnd (fmul rnd (rating_avg u) (float_of_int rnd (rating_count u)))
                                  (float_of_int rnd (RatingRequest.score req)))
                        (float_of_int rnd (rating_count u + 1))
                 else rating_avg u) \<and>
              rating_avg u2 =
                (if x = rid
                 then fdiv rnd (fadd rnd (fmul rnd (rating_avg u1) (float_of_int rnd (rating_count u1)))
                                  (float_of_int rnd (RatingRequest.score req)))
                        (float_of_int rnd (rating_count u1 + 1))
                 else rating_avg u1)" if x: "user db x = Some u" for x u
  proof -
    obtain u1 where x1: "user db1 x = Some u1"
      and e1: "rating_count u1 = rating_count u + (if x = rid then 1 else 0)"
        "rating_avg u1 =
                (if x = rid
                 then fdiv rnd (fadd rnd (fmul rnd (rating_avg u) (float_of_int rnd (rating_count u)))
                                  (float_of_int rnd (RatingRequest.score req)))
                        (float_of_int rnd (rating_count u + 1))
                 else rating_avg u)"
        "coins u1 = coins u
                + (if truthy (teacher_id sess) \<and> truthy (learner_id sess) \<and>
                      ObjectId (the (teacher_id sess)) = Some x then 10 else 0)
                - (if truthy (teacher_id sess) \<and> truthy (learner_id sess) \<and>
                      ObjectId (the (learner_id sess)) = Some x then 10 else 0)"
        "teaching_sessions u1 = teaching_sessions u
                + (if truthy (teacher_id sess) \<and> truthy (learner_id sess) \<and>
                      ObjectId (the (teacher_id sess)) = Some x then 1 else 0)"
        "learning_sessions u1 = learning_sessions u
                + (if truthy (teacher_id sess) \<and> truthy (learner_id sess) \<and>
                      ObjectId (the (learner_id sess)) = Some x then 1 else 0)"
      using rs_success_user [OF run sid sess x] unfolding c by blast
    obtain u2 where x2: "user db2 x = Some u2"
      and e2: "rating_count u2 = rating_count u1 + (if x = rid then 1 else 0)"
        "rating_avg u2 =
                (if x = rid
                 then fdiv rnd (fadd rnd (fmul rnd (rating_avg u1) (float_of_int rnd (rating_count u1)))
                                  (float_of_int rnd (RatingRequest.score req)))
                        (float_of_int rnd (rating_count u1 + 1))
                 else rating_avg u1)"
        "coins u2 = coins u1
                + (if truthy (teacher_id sess) \<and> truthy (learner_id sess) \<and>
                      ObjectId (the (teacher_id sess)) = Some x then 10 else 0)
                - (if truthy (teacher_id sess) \<and> truthy (learner_id sess) \<and>
                      ObjectId (the (learner_id sess)) = Some x then 10 else 0)"
        "teaching_sessions u2 = teaching_sessions u1
                + (if truthy (teacher_id sess) \<and> truthy (learner_id sess) \<and>
                      ObjectId (the (teacher_id sess)) = Some x then 1 else 0)"
        "learning_sessions u2 = learning_sessions u1
                + (if truthy (teacher_id sess) \<and> truthy (learner_id sess) \<and>
                      ObjectId (the (learner_id sess)) = Some x then 1 else 0)"
      using rs_success_user [OF run2 sid s1 x1] unfolding c ids1 by blast
    show ?thesis
      using x1 x2 e1 e2 by blast
  qed
  show ?thesis
    using s1 run2 s2 len users unfolding sess1_def by blast
qed


theorem repeated_settlement_witness:
  "\<exists>db1 db2.
     rate_session no_rounding hex_ObjectId 1 2 (Some example_db)
         (example_req\<lparr>RatingRequest.score := 3\<rparr>) = (Inr [(''ok'', True)], Some db1) \<and>
     rate_session no_rounding hex_ObjectId 3 4 (Some db1)
         (example_req\<lparr>RatingRequest.score := 3\<rparr>) = (Inr [(''ok'', True)], Some db2) \<and>
     map_option status (session db1 ''0000000000000000000000f1'') = Some completed \<and>
     map_option status (session db2 ''0000000000000000000000f1'') = Some completed \<and>
     map_option updated_at (session db2 ''0000000000000000000000f1'') = Some (Some 4) \<and>
     map_option coins (user db2 ''0000000000000000000000a1'') = Some 40 \<and>
     map_option teaching_sessions (user db2 ''0000000000000000000000a1'') = Some 11 \<and>
     map_option rating_count (user db2 ''0000000000000000000000a1'') = Some 3 \<and>
     map_option rating_avg (user db2 ''0000000000000000000000a1'') = Some (7 / 2) \<and>
     map_option coins (user db2 ''0000000000000000000000a2'') = Some (- 15) \<and>
     map_option learning_sessions (user db2 ''0000000000000000000000a2'') = Some 4"
proof -
  define req where "req = example_req\<lparr>RatingRequest.score := 3\<rparr>"
  define S where "S = \<lparr>teacher_id = Some ''0000000000000000000000a1'',
            learner_id = Some ''0000000000000000000000a2'', status = scheduled, updated_at = None\<rparr>"
  define db1 where "db1 = the (snd (rate_session no_rounding hex_ObjectId 1 2 (Some example_db) req))"
  have run: "rate_session no_rounding hex_ObjectId 1 2 (Some example_db) req = (Inr [(''ok'', True)], Some db1)"
    unfolding db1_def req_def by (simp add: run_simps)
  have sid: "hex_ObjectId (RatingRequest.session_id req) = Some ''0000000000000000000000f1''"
    by (simp add: req_def example_req_def hex_ObjectId_def lower_hex_def)
  have sess: "session example_db ''0000000000000000000000f1'' = Some S"
    by (simp add: example_db_def S_def)
  have rid: "hex_ObjectId (RatingRequest.ratee_id req) = Some ''0000000000000000000000a1''"
    by (simp add: req_def example_req_def hex_ObjectId_def lower_hex_def)
  have t: "user example_db ''0000000000000000000000a1'' =
      Some \<lparr>coins = 20, rating_avg = 4.5, rating_count = 1, badges = {},
            teaching_sessions = 9, learning_sessions = 0\<rparr>"
    by (simp add: example_db_def)
  have l: "user example_db ''0000000000000000000000a2'' =
      Some \<lparr>coins = 5, rating_avg = 0, rating_count = 0, badges = {''Early Bird''},
            teaching_sessions = 0, learning_sessions = 2\<rparr>"
    by (simp add: example_db_def)
  have count: "\<forall>u. user example_db ''0000000000000000000000a1'' = Some u \<longrightarrow> 0 \<le> rating_count u"
    by (simp add: t)
  have T: "truthy (teacher_id S)" "truthy (learner_id S)"
      "hex_ObjectId (the (teacher_id S)) = Some ''0000000000000000000000a1''"
      "hex_ObjectId (the (learner_id S)) = Some ''0000000000000000000000a2''"
    by (simp_all add: S_def truthy_def hex_ObjectId_def lower_hex_def)
  note rep = repeated_settlement [OF run sid sess rid count, of 3 4]
  from rep have s1: "session db1 ''0000000000000000000000f1'' =
      Some (S\<lparr>status := completed, updated_at := Some 2\<rparr>)"
    by (rule conjunct1)
  from rep obtain db2 where
      run2: "rate_session no_rounding hex_ObjectId 3 4 (Some db1) req = (Inr [(''ok'', True)], Some db2)"
    and s2: "session db2 ''0000000000000000000000f1'' =
      Some (S\<lparr>status := completed, updated_at := Some 4\<rparr>)"
    and eff: "\<forall>x u. user example_db x = Some u \<longrightarrow>
           (\<exists>u1 u2. user db1 x = Some u1 \<and> user db2 x = Some u2 \<and>
              coins u1 = coins u
                + (if truthy (teacher_id S) \<and> truthy (learner_id S) \<and>
                      hex_ObjectId (the (teacher_id S)) = Some x then 10 else 0)
                - (if truthy (teacher_id S) \<and> truthy (learner_id S) \<and>
                      hex_ObjectId (the (learner_id S)) = Some x then 10 else 0) \<and>
              coins u2 = coins u1
                + (if truthy (teacher_id S) \<and> truthy (learner_id S) \<and>
                      hex_ObjectId (the (teacher_id S)) = Some x then 10 else 0)
                - (if truthy (teacher_id S) \<and> truthy (learner_id S) \<and>
                      hex_ObjectId (the (learner_id S)) = Some x then 10 else 0) \<and>
              teaching_sessions u1 = teaching_sessions u
                + (if truthy (teacher_id S) \<and> truthy (learner_id S) \<and>
                      hex_ObjectId (the (teacher_id S)) = Some x then 1 else 0) \<and>
              teaching_sessions u2 = teaching_sessions u1
                + (if truthy (teacher_id S) \<and> truthy (learner_id S) \<and>
                      hex_ObjectId (the (teacher_id S)) = Some x then 1 else 0) \<and>
              learning_sessions u1 = learning_sessions u
                + (if truthy (teacher_id S) \<and> truthy (learner_id S) \<and>
                      hex_ObjectId (the (learner_id S)) = Some x then 1 else 0) \<and>
              learning_sessions u2 = learning_sessions u1
                + (if truthy (teacher_id S) \<and> truthy (learner_id S) \<and>
                      hex_ObjectId (the (learner_id S)) = Some x then 1 else 0) \<and>
              rating_count u1 = rating_count u + (if x = ''0000000000000000000000a1'' then 1 else 0) \<and>
              rating_count u2 = rating_count u1 + (if x = ''0000000000000000000000a1'' then 1 else 0) \<and>
              rating_avg u1 =
                (if x = ''0000000000000000000000a1''
                 then fdiv no_rounding
                        (fadd no_rounding
                           (fmul no_rounding (rating_avg u) (float_of_int no_rounding (rating_count u)))
                           (float_of_int no_rounding (RatingRequest.score req)))
                        (float_of_int no_rounding (rating_count u + 1))
                 else rating_avg u) \<and>
              rating_avg u2 =
                (if x = ''0000000000000000000000a1''
                 then fdiv no_rounding
                        (fadd no_rounding
                           (fmul no_rounding (rating_avg u1) (float_of_int no_rounding (rating_count u1)))
                           (float_of_int no_rounding (RatingRequest.score req)))
                        (float_of_int no_rounding (rating_count u1 + 1))
                 else rating_avg u1))"
    by blast
  obtain t2 where "user db2 ''0000000000000000000000a1'' = Some t2"
    and "coins t2 = 40" and "teaching_sessions t2 = 11" and "rating_count t2 = 3"
    and "rating_avg t2 = 7 / 2"
    using eff [rule_format, OF t]
    by (auto simp: T req_def example_req_def float_of_int_def fmul_def fadd_def fdiv_def no_rounding_def)
  moreover obtain l2 where "user db2 ''0000000000000000000000a2'' = Some l2"
    and "coins l2 = - 15" and "learning_sessions l2 = 4"
    using eff [rule_format, OF l] by (auto simp: T)
  ultimately show ?thesis
    using run run2 s1 s2 unfolding req_def by auto
qed

section \<open>Rater and ratee need not take part in the session\<close>

text \<open>
  C10. No hypothesis relates \<open>rater_id\<close> or \<open>ratee_id\<close> to the session: for an
  existing session with populated, well-formed teacher and learner ids, any
  \<open>rater_id\<close> string at all and any well-formed \<open>ratee_id\<close> of an existing user
  (count non-negative), the call succeeds, appends the rating, updates that ratee's
  count and average (the average in the code's double arithmetic), and applies coins
  and counters to the session's own teacher and learner.
\<close>

theorem no_participant_check:
  assumes score: "1 \<le> RatingRequest.score req" "RatingRequest.score req \<le> 5"
    and sid: "ObjectId (RatingRequest.session_id req) = Some sid"
    and sess: "session db sid = Some sess"
    and ts: "teacher_id sess = Some ts" "ts \<noteq> []" "ObjectId ts = Some tid"
    and ls: "learner_id sess = Some ls" "ls \<noteq> []" "ObjectId ls = Some lid"
    and rid: "ObjectId (RatingRequest.ratee_id req) = Some rid"
    and ratee: "user db rid = Some ru"
    and count: "0 \<le> rating_count ru"
  shows "\<exists>db'. rate_session rnd ObjectId now1 now2 (Some db) req = (Inr [(''ok'', True)], Some db') \<and>
     rating db' = rating db @
        [\<lparr>Rating.session_id = RatingRequest.session_id req,
          Rating.rater_id = RatingRequest.rater_id req,
          Rating.ratee_id = RatingRequest.ratee_id req,
          Rating.score = RatingRequest.score req,
          Rating.feedback = RatingRequest.feedback req,
          Rating.created_at = Some now1\<rparr>] \<and>
     (\<forall>x u. user db x = Some u \<longrightarrow>
        (\<exists>u'. user db' x = Some u' \<and>
           rating_count u' = rating_count u + (if x = rid then 1 else 0) \<and>
           rating_avg u' =
             (if x = rid
              then fdiv rnd (fadd rnd (fmul rnd (rating_avg u) (float_of_int rnd (rating_count u)))
                  (float_of_int rnd (RatingRequest.score req)))
                (float_of_int rnd (rating_count u + 1))
              else rating_avg u) \<and>
           coins u' = coins u + (if x = tid then 10 else 0) - (if x = lid then 10 else 0) \<and>
           teaching_sessions u' = teaching_sessions u + (if x = tid then 1 else 0) \<and>
           learning_sessions u' = learning_sessions u + (if x = lid then 1 else 0)))"
proof -
  have c: "rating_count u + 1 \<noteq> 0" if "user db rid = Some u" for u
    using that ratee count by simp
  have t: "truthy (teacher_id sess) \<Longrightarrow> ObjectId (the (teacher_id sess)) \<noteq> None"
    using ts by simp
  have l: "truthy (teacher_id sess) \<Longrightarrow> truthy (learner_id sess) \<Longrightarrow>
              ObjectId (the (learner_id sess)) \<noteq> None"
    using ls by simp
  obtain db' where run: "rate_session rnd ObjectId now1 now2 (Some db) req = (Inr [(''ok'', True)], Some db')"
    using rs_succeeds [OF score sid sess rid c t l, of rnd now1 now2] by blast
  have "\<exists>u'. user db' x = Some u' \<and>
           rating_count u' = rating_count u + (if x = rid then 1 else 0) \<and>
           rating_avg u' =
             (if x = rid
              then fdiv rnd (fadd rnd (fmul rnd (rating_avg u) (float_of_int rnd (rating_count u)))
                  (float_of_int rnd (RatingRequest.score req)))
                (float_of_int rnd (rating_count u + 1))
              else rating_avg u) \<and>
           coins u' = coins u + (if x = tid then 10 else 0) - (if x = lid then 10 else 0) \<and>
           teaching_sessions u' = teaching_sessions u + (if x = tid then 1 else 0) \<and>
           learning_sessions u' = learning_sessions u + (if x = lid then 1 else 0)"
    if x: "user db x = Some u" for x u
    using rs_success_user_ids [OF run sid sess ts ls rid x] by blast
  then show ?thesis
    using run rs_success_session(2) [OF run sid sess] by blast
qed


theorem no_participant_check_witness:
  "hex_ObjectId ''somebody'' = None \<and>
   (\<exists>db'. rate_session no_rounding hex_ObjectId 1 2 (Some example_db)
            (example_req\<lparr>RatingRequest.rater_id := ''somebody'',
                         RatingRequest.ratee_id := ''0000000000000000000000a4''\<rparr>)
          = (Inr [(''ok'', True)], Some db') \<and>
     length (rating db') = 1 \<and>
     map_option rating_count (user db' ''0000000000000000000000a4'') = Some 2 \<and>
     map_option rating_avg (user db' ''0000000000000000000000a4'') = Some 4 \<and>
     map_option coins (user db' ''0000000000000000000000a4'') = Some 20 \<and>
     map_option coins (user db' ''0000000000000000000000a1'') = Some 30 \<and>
     map_option coins (user db' ''0000000000000000000000a2'') = Some (- 5))"
proof -
  define req where "req = example_req\<lparr>RatingRequest.rater_id := ''somebody'',
                         RatingRequest.ratee_id := ''0000000000000000000000a4''\<rparr>"
  have sc: "1 \<le> RatingRequest.score req" "RatingRequest.score req \<le> 5"
    by (simp_all add: req_def example_req_def)
  have sid: "hex_ObjectId (RatingRequest.session_id req) = Some ''0000000000000000000000f1''"
    by (simp add: req_def example_req_def hex_ObjectId_def lower_hex_def)
  have sess: "session example_db ''0000000000000000000000f1'' =
      Some \<lparr>teacher_id = Some ''0000000000000000000000a1'',
            learner_id = Some ''0000000000000000000000a2'', status = scheduled, updated_at = None\<rparr>"
    by (simp add: example_db_def)
  have ts: "teacher_id \<lparr>teacher_id = Some ''0000000000000000000000a1'',
            learner_id = Some ''0000000000000000000000a2'', status = scheduled, updated_at = None\<rparr>
          = Some ''0000000000000000000000a1''"
      "''0000000000000000000000a1'' \<noteq> []"
      "hex_ObjectId ''0000000000000000000000a1'' = Some ''0000000000000000000000a1''"
    by (simp_all add: hex_ObjectId_def lower_hex_def)
  have ls: "learner_id \<lparr>teacher_id = Some ''0000000000000000000000a1'',
            learner_id = Some ''0000000000000000000000a2'', status = scheduled, updated_at = None\<rparr>
          = Some ''0000000000000000000000a2''"
      "''0000000000000000000000a2'' \<noteq> []"
      "hex_ObjectId ''0000000000000000000000a2'' = Some ''0000000000000000000000a2''"
    by (simp_all add: hex_ObjectId_def lower_hex_def)
  have rid: "hex_ObjectId (RatingRequest.ratee_id req) = Some ''0000000000000000000000a4''"
    by (simp add: req_def hex_ObjectId_def lower_hex_def)
  have other: "user example_db ''0000000000000000000000a4'' =
      Some \<lparr>coins = 20, rating_avg = 3, rating_count = 1, badges = {},
            teaching_sessions = 0, learning_sessions = 0\<rparr>"
    by (simp add: example_db_def)
  have cnt: "0 \<le> rating_count \<lparr>coins = 20, rating_avg = 3, rating_count = 1, badges = {},
            teaching_sessions = 0, learning_sessions = 0\<rparr>"
    by simp
  have t: "user example_db ''0000000000000000000000a1'' =
      Some \<lparr>coins = 20, rating_avg = 4.5, rating_count = 1, badges = {},
            teaching_sessions = 9, learning_sessions = 0\<rparr>"
    by (simp add: example_db_def)
  have l: "user example_db ''0000000000000000000000a2'' =
      Some \<lparr>coins = 5, rating_avg = 0, rating_count = 0, badges = {''Early Bird''},
            teaching_sessions = 0, learning_sessions = 2\<rparr>"
    by (simp add: example_db_def)
  obtain db' where run: "rate_session no_rounding hex_ObjectId 1 2 (Some example_db) req = (Inr [(''ok'', True)], Some db')"
    and rt: "rating db' = rating example_db @
        [\<lparr>Rating.session_id = RatingRequest.session_id req,
          Rating.rater_id = RatingRequest.rater_id req,
          Rating.ratee_id = RatingRequest.ratee_id req,
          Rating.score = RatingRequest.score req,
          Rating.feedback = RatingRequest.feedback req,
          Rating.created_at = Some 1\<rparr>]"
    and eff: "\<forall>x u. user example_db x = Some u \<longrightarrow>
        (\<exists>u'. user db' x = Some u' \<and>
           rating_count u' = rating_count u + (if x = ''0000000000000000000000a4'' then 1 else 0) \<and>
           rating_avg u' =
             (if x = ''0000000000000000000000a4''
              then fdiv no_rounding (fadd no_rounding (fmul no_rounding (rating_avg u) (float_of_int no_rounding (rating_count u)))
                  (float_of_int no_rounding (RatingRequest.score req)))
                (float_of_int no_rounding (rating_count u + 1))
              else rating_avg u) \<and>
           coins u' = coins u + (if x = ''0000000000000000000000a1'' then 10 else 0)
                        - (if x = ''0000000000000000000000a2'' then 10 else 0) \<and>
           teaching_sessions u' = teaching_sessions u + (if x = ''0000000000000000000000a1'' then 1 else 0) \<and>
           learning_sessions u' = learning_sessions u + (if x = ''0000000000000000000000a2'' then 1 else 0))"
    using no_participant_check [OF sc sid sess ts ls rid other cnt, of no_rounding 1 2] by blast
  have len: "length (rating db') = 1"
    by (simp add: rt example_db_def)
  obtain o' where "user db' ''0000000000000000000000a4'' = Some o'"
    and "rating_count o' = 2" and "rating_avg o' = 4" and "coins o' = 20"
    using eff [rule_format, OF other]
    by (auto simp: req_def example_req_def float_of_int_def fmul_def fadd_def fdiv_def no_rounding_def)
  moreover obtain t' where "user db' ''0000000000000000000000a1'' = Some t'" and "coins t' = 30"
    using eff [rule_format, OF t] by auto
  moreover obtain l' where "user db' ''0000000000000000000000a2'' = Some l'" and "coins l' = - 5"
    using eff [rule_format, OF l] by auto
  moreover have "hex_ObjectId ''somebody'' = None"
    by (simp add: hex_ObjectId_def lower_hex_def)
  ultimately show ?thesis
    using run len unfolding req_def by auto
qed

section \<open>Malformed identifiers\<close>

text \<open>
  The outcome of a call and the users it leaves depend on the store's users only, not
  on the ratings already stored nor on \<open>rater_id\<close>.
\<close>

lemma urr_users_only:
  "user dbA = user dbB \<Longrightarrow> RatingRequest.ratee_id reqA = RatingRequest.ratee_id reqB \<Longrightarrow>
   RatingRequest.score reqA = RatingRequest.score reqB \<Longrightarrow>
   fst (update_ratee_rating rnd ObjectId reqA dbA) = fst (update_ratee_rating rnd ObjectId reqB dbB) \<and>
   user (snd (update_ratee_rating rnd ObjectId reqA dbA)) = user (snd (update_ratee_rating rnd ObjectId reqB dbB))"
  by (auto simp: update_ratee_rating_def Let_def find_one_def split: sum.splits option.splits)

lemma cl_users_only:
  "user dbA = user dbB \<Longrightarrow>
   fst (coins_logic ObjectId s dbA) = fst (coins_logic ObjectId s dbB) \<and>
   user (snd (coins_logic ObjectId s dbA)) = user (snd (coins_logic ObjectId s dbB))"
  by (auto simp: coins_logic_def Let_def split: sum.splits option.splits)

lemma bl_users_only:
  "user dbA = user dbB \<Longrightarrow>
   fst (badges_logic ObjectId s dbA) = fst (badges_logic ObjectId s dbB)"
  by (auto simp: badges_logic_def Let_def find_one_def split: sum.splits option.splits)

lemma rs_rater_irrelevant:
  "fst (rate_session rnd ObjectId now1 now2 (Some db) (req\<lparr>RatingRequest.rater_id := s\<rparr>))
     = fst (rate_session rnd ObjectId now1 now2 (Some db) req)"
proof (cases "1 \<le> RatingRequest.score req \<and> RatingRequest.score req \<le> 5 \<and>
              (\<exists>sid sess. ObjectId (RatingRequest.session_id req) = Some sid \<and> session db sid = Some sess)")
  case False
  then show ?thesis
    by (auto simp: rate_session_def oid_def find_one_def split: option.splits)
next
  case True
  then obtain sid sess where score: "1 \<le> RatingRequest.score req" "RatingRequest.score req \<le> 5"
    and sid: "ObjectId (RatingRequest.session_id req) = Some sid"
    and sess: "session db sid = Some sess"
    by blast
  define req' where "req' = req\<lparr>RatingRequest.rater_id := s\<rparr>"
  have score': "1 \<le> RatingRequest.score req'" "RatingRequest.score req' \<le> 5"
    and sid': "ObjectId (RatingRequest.session_id req') = Some sid"
    using score sid by (simp_all add: req'_def)
  define db1 where "db1 = db\<lparr>rating := rating db @
            [\<lparr>Rating.session_id = RatingRequest.session_id req,
              Rating.rater_id = RatingRequest.rater_id req,
              Rating.ratee_id = RatingRequest.ratee_id req,
              Rating.score = RatingRequest.score req,
              Rating.feedback = RatingRequest.feedback req,
              Rating.created_at = Some now1\<rparr>]\<rparr>"
  define db2 where "db2 = snd (update_ratee_rating rnd ObjectId req db1)"
  define db3 where "db3 = snd (coins_logic ObjectId sess db2)"
  define db5 where "db5 = snd (badges_logic ObjectId sess (mark_session_completed sid now2 db3))"
  define db1' where "db1' = db\<lparr>rating := rating db @
            [\<lparr>Rating.session_id = RatingRequest.session_id req',
              Rating.rater_id = RatingRequest.rater_id req',
              Rating.ratee_id = RatingRequest.ratee_id req',
              Rating.score = RatingRequest.score req',
              Rating.feedback = RatingRequest.feedback req',
              Rating.created_at = Some now1\<rparr>]\<rparr>"
  define db2' where "db2' = snd (update_ratee_rating rnd ObjectId req' db1')"
  define db3' where "db3' = snd (coins_logic ObjectId sess db2')"
  define db5' where "db5' = snd (badges_logic ObjectId sess (mark_session_completed sid now2 db3'))"
  have u1: "user db1' = user db1" by (simp add: db1_def db1'_def)
  have a: "fst (update_ratee_rating rnd ObjectId req' db1') = fst (update_ratee_rating rnd ObjectId req db1)"
    and u2: "user db2' = user db2"
    using urr_users_only [OF u1, of req' req rnd ObjectId] by (simp_all add: req'_def db2_def db2'_def)
  have b: "fst (coins_logic ObjectId sess db2') = fst (coins_logic ObjectId sess db2)"
    and u3: "user db3' = user db3"
    using cl_users_only [OF u2, of ObjectId sess] by (simp_all add: db3_def db3'_def)
  have c: "fst (badges_logic ObjectId sess (mark_session_completed sid now2 db3'))
         = fst (badges_logic ObjectId sess (mark_session_completed sid now2 db3))"
    by (rule bl_users_only) (simp add: msc_user u3)
  show ?thesis
    unfolding req'_def [symmetric]
      rs_chain [OF score sid sess db1_def db2_def db3_def db5_def]
      rs_chain [OF score' sid' sess db1'_def db2'_def db3'_def db5'_def] a b c
    by (simp split: option.splits)
qed

text \<open>
  C5 does not hold as stated: \<open>ratee_id\<close> is parsed in line 330 only, after the
  rating has been inserted in line 327. In the example store a request for the
  existing session \<open>...f1\<close> with the malformed ratee id \<open>nope\<close> is answered with
  status 400, and the store then holds the new rating document.
\<close>

theorem malformed_ratee_counterexample:
  "hex_ObjectId ''nope'' = None \<and>
   rate_session no_rounding hex_ObjectId 1 2 (Some example_db) (example_req\<lparr>RatingRequest.ratee_id := ''nope''\<rparr>)
     = (Inl (HTTPException 400 ''Invalid object id''),
        Some (example_db\<lparr>rating :=
           [\<lparr>Rating.session_id = ''0000000000000000000000f1'',
             Rating.rater_id = ''0000000000000000000000a2'',
             Rating.ratee_id = ''nope'',
             Rating.score = 5,
             Rating.feedback = None,
             Rating.created_at = Some 1\<rparr>]\<rparr>))"
  by (simp add: run_simps)

text \<open>
  C5, amended. For a request with a valid score: a malformed \<open>session_id\<close> is
  answered with status 400, ``Invalid object id'', before any lookup and with the store
  unchanged; a malformed \<open>ratee_id\<close> on an existing session is answered with the
  same error, but only after the rating document has been inserted, which is the one
  change to the store; \<open>rater_id\<close> is never parsed, so replacing it by any string,
  malformed or not, does not change the outcome of the call.
\<close>

theorem malformed_identifiers:
  assumes score: "1 \<le> RatingRequest.score req" "RatingRequest.score req \<le> 5"
  shows "(ObjectId (RatingRequest.session_id req) = None \<longrightarrow>
           rate_session rnd ObjectId now1 now2 (Some db) req
             = (Inl (HTTPException 400 ''Invalid object id''), Some db)) \<and>
         (\<forall>sid sess. ObjectId (RatingRequest.session_id req) = Some sid \<and> session db sid = Some sess \<and>
             ObjectId (RatingRequest.ratee_id req) = None \<longrightarrow>
           rate_session rnd ObjectId now1 now2 (Some db) req
             = (Inl (HTTPException 400 ''Invalid object id''),
                Some (db\<lparr>rating := rating db @
                  [\<lparr>Rating.session_id = RatingRequest.session_id req,
                    Rating.rater_id = RatingRequest.rater_id req,
                    Rating.ratee_id = RatingRequest.ratee_id req,
                    Rating.score = RatingRequest.score req,
                    Rating.feedback = RatingRequest.feedback req,
                    Rating.created_at = Some now1\<rparr>]\<rparr>))) \<and>
         (\<forall>s. fst (rate_session rnd ObjectId now1 now2 (Some db) (req\<lparr>RatingRequest.rater_id := s\<rparr>))
                = fst (rate_session rnd ObjectId now1 now2 (Some db) req))"
proof (intro conjI impI allI)
  assume "ObjectId (RatingRequest.session_id req) = None"
  then show "rate_session rnd ObjectId now1 now2 (Some db) req
             = (Inl (HTTPException 400 ''Invalid object id''), Some db)"
    using score by (simp add: rate_session_def oid_def)
next
  fix sid sess
  assume a: "ObjectId (RatingRequest.session_id req) = Some sid \<and> session db sid = Some sess \<and>
             ObjectId (RatingRequest.ratee_id req) = None"
  then show "rate_session rnd ObjectId now1 now2 (Some db) req
             = (Inl (HTTPException 400 ''Invalid object id''),
                Some (db\<lparr>rating := rating db @
                  [\<lparr>Rating.session_id = RatingRequest.session_id req,
                    Rating.rater_id = RatingRequest.rater_id req,
                    Rating.ratee_id = RatingRequest.ratee_id req,
                    Rating.score = RatingRequest.score req,
                    Rating.feedback = RatingRequest.feedback req,
                    Rating.created_at = Some now1\<rparr>]\<rparr>))"
    using score
    by (simp add: rate_session_def oid_def find_one_def insert_one_def update_ratee_rating_def)
next
  fix s
  show "fst (rate_session rnd ObjectId now1 now2 (Some db) (req\<lparr>RatingRequest.rater_id := s\<rparr>))
                = fst (rate_session rnd ObjectId now1 now2 (Some db) req)"
    by (rule rs_rater_irrelevant)
qed

theorem malformed_identifiers_witness:
  "hex_ObjectId ''nope'' = None \<and>
   rate_session no_rounding hex_ObjectId 1 2 (Some example_db) (example_req\<lparr>RatingRequest.session_id := ''nope''\<rparr>)
     = (Inl (HTTPException 400 ''Invalid object id''), Some example_db) \<and>
   fst (rate_session no_rounding hex_ObjectId 1 2 (Some example_db) (example_req\<lparr>RatingRequest.rater_id := ''nope''\<rparr>))
     = Inr [(''ok'', True)]"
proof -
  have n: "hex_ObjectId ''nope'' = None"
    by (simp add: hex_ObjectId_def lower_hex_def)
  have ok: "fst (rate_session no_rounding hex_ObjectId 1 2 (Some example_db) example_req) = Inr [(''ok'', True)]"
    by (simp add: run_simps)
  have sc: "1 \<le> RatingRequest.score (example_req\<lparr>RatingRequest.session_id := ''nope''\<rparr>)"
      "RatingRequest.score (example_req\<lparr>RatingRequest.session_id := ''nope''\<rparr>) \<le> 5"
      "1 \<le> RatingRequest.score example_req" "RatingRequest.score example_req \<le> 5"
    by (simp_all add: example_req_def)
  show ?thesis
    using malformed_identifiers [OF sc(1,2), of hex_ObjectId no_rounding 1 2 example_db]
      malformed_identifiers [OF sc(3,4), of hex_ObjectId no_rounding 1 2 example_db] n ok
    by simp
qed

end
